theory Spec2Isabelle
  imports Main
begin

section \<open>Python values used by the relay\<close>

text \<open>
  \<open>str(n)\<close> on a Python int: the decimal numeral, with a leading minus sign for a
  negative number. The Discord tables are keyed by \<open>str(message.id)\<close>.
\<close>

definition digit_char :: "nat \<Rightarrow> char" where
  "digit_char d = char_of (48 + d)"

function str_nat :: "nat \<Rightarrow> string" where
  "str_nat n = (if n < 10 then [digit_char n] else str_nat (n div 10) @ [digit_char (n mod 10)])"
  by pat_completeness auto
termination
  by (relation "measure (\<lambda>n. n)") auto

declare str_nat.simps [simp del]

definition str_int :: "int \<Rightarrow> string" where
  "str_int i = (if i < 0 then CHR ''-'' # str_nat (nat (- i)) else str_nat (nat i))"

text \<open>\<open>s.startswith(p)\<close>.\<close>

definition startswith :: "string \<Rightarrow> string \<Rightarrow> bool" where
  "startswith s p = (take (length p) s = p)"

text \<open>
  An awaited call either raises (any \<open>Exception\<close>: a connection error, a body that is
  not JSON) or returns a value.
\<close>

datatype 'a outcome = Raises | Returns 'a

section \<open>The Telegram Bot API as the relay sees it\<close>

text \<open>
  The JSON body of a Bot API answer, as far as the relay reads it: the \<open>ok\<close> flag
  (an absent flag reads as false through \<open>.get('ok')\<close>) and
  \<open>['result']['message_id']\<close>, which may be missing.
\<close>

record tg_response =
  ok :: bool
  result_message_id :: "int option"

text \<open>
  The methods of \<open>TelegramBot\<close> that the relay calls, with their arguments:
  chat id, text or file URL, caption, \<open>reply_to_message_id\<close>.
\<close>

datatype tg_call =
    SendMessage int string "int option"
  | SendPhoto int string string "int option"
  | SendVideo int string string "int option"
  | SendDocument int string string "int option"
  | DeleteMessage int int

text \<open>
  Each send method adds \<open>reply_to_message_id\<close> to the request only
  \<open>if reply_to_message_id:\<close>, so neither \<open>None\<close> nor 0 reaches the request.
\<close>

fun reply_to_of :: "tg_call \<Rightarrow> int option" where
  "reply_to_of (SendMessage c t r) = r"
| "reply_to_of (SendPhoto c u cap r) = r"
| "reply_to_of (SendVideo c u cap r) = r"
| "reply_to_of (SendDocument c u cap r) = r"
| "reply_to_of (DeleteMessage c m) = None"

definition has_reply_hint :: "tg_call \<Rightarrow> bool" where
  "has_reply_hint c = (case reply_to_of c of None \<Rightarrow> False | Some r \<Rightarrow> r \<noteq> 0)"

section \<open>What a handler does to the outside\<close>

datatype log_level = Info | Warning | Error

text \<open>
  The trace of a handler run, in program order: calls to the Bot API, posts and deletes
  on the Discord webhook, file downloads and removals, log lines (level and the
  fixed part of the message; the interpolated value is left out), and, in the poll loop,
  the requests for updates, the assignments to \<open>telegram_offset\<close> and the pauses.
\<close>

datatype event =
    TgCall tg_call
  | Logged log_level string
  | GetAvatar "int option"
  | Download string
  | WebhookPost string string string "string option"
  | RemoveFile string
  | WebhookDelete string
  | GetUpdates int
  | OffsetSet int
  | Sleep nat

section \<open>The state of \<open>DiscordTelegramSync\<close>\<close>

record sync_state =
  webhook_url :: string
  discord_channel_id :: int
  telegram_chat_id :: int
  discord_to_telegram :: "string \<rightharpoonup> int \<times> string \<times> int"
  telegram_to_discord :: "int \<rightharpoonup> string \<times> string \<times> int"
  webhook_to_telegram :: "string \<rightharpoonup> int"
  telegram_to_webhook :: "int \<rightharpoonup> string"
  telegram_offset :: int

section \<open>Discord events\<close>

record attachment =
  content_type :: "string option"
  url :: string

text \<open>
  A Discord message as the handlers read it. \<open>reference\<close> is \<open>None\<close> when the message
  has no reference, \<open>Some None\<close> when the reference has no message id.
\<close>

record discord_message =
  message_id :: int
  author_display_name :: string
  author_id :: int
  author_is_bot_user :: bool
  msg_webhook_id :: "int option"
  msg_channel_id :: int
  content :: string
  reference :: "int option option"
  attachments :: "attachment list"

subsection \<open>\<open>handle_discord_message_delete\<close>\<close>

definition handle_discord_message_delete ::
  "tg_response outcome \<Rightarrow> sync_state \<Rightarrow> discord_message \<Rightarrow> sync_state \<times> event list" where
  "handle_discord_message_delete env s message =
     (let msg_key = str_int (message_id message) in
      case discord_to_telegram s msg_key of
        None \<Rightarrow> (s, [])
      | Some (telegram_msg_id, name, uid) \<Rightarrow>
          (let call = TgCall (DeleteMessage (telegram_chat_id s) telegram_msg_id) in
           case env of
             Raises \<Rightarrow> (s, [call, Logged Error ''Error deleting message in Telegram''])
           | Returns result \<Rightarrow>
               if ok result then
                 (s\<lparr>discord_to_telegram := (discord_to_telegram s)(msg_key := None),
                    telegram_to_discord := (telegram_to_discord s)(telegram_msg_id := None)\<rparr>,
                  [call, Logged Info ''Message deleted in Telegram''])
               else (s, [call, Logged Warning ''Failed to delete message in Telegram''])))"

subsection \<open>\<open>handle_discord_message\<close>\<close>

text \<open>The speech-balloon emoji U+1F4AC that opens the relayed line, in UTF-8.\<close>

definition speech_balloon :: string where
  "speech_balloon = [CHR 0xF0, CHR 0x9F, CHR 0x92, CHR 0xAC]"

definition text_line :: "discord_message \<Rightarrow> string" where
  "text_line message =
     speech_balloon @ '' <b>'' @ author_display_name message @ ''</b>: '' @ content message"

definition caption_of :: "discord_message \<Rightarrow> string" where
  "caption_of message =
     (if content message \<noteq> []
      then ''<b>'' @ author_display_name message @ ''</b>: '' @ content message
      else [])"

text \<open>
  The reply target: \<open>reply_to\<close> stays \<open>None\<close> unless the message has a reference with
  a non-zero message id whose string is a key of \<open>discord_to_telegram\<close>.
\<close>

definition reply_target :: "sync_state \<Rightarrow> discord_message \<Rightarrow> int option" where
  "reply_target s message =
     (case reference message of
        None \<Rightarrow> None
      | Some None \<Rightarrow> None
      | Some (Some ref_id) \<Rightarrow>
          if ref_id \<noteq> 0 then
            (case discord_to_telegram s (str_int ref_id) of
               None \<Rightarrow> None
             | Some (telegram_msg_id, name, uid) \<Rightarrow> Some telegram_msg_id)
          else None)"

text \<open>The send chosen for one attachment, by its declared content type.\<close>

definition attachment_call :: "int \<Rightarrow> string \<Rightarrow> int option \<Rightarrow> attachment \<Rightarrow> tg_call" where
  "attachment_call chat caption reply_to a =
     (case content_type a of
        None \<Rightarrow> SendDocument chat (url a) caption reply_to
      | Some ct \<Rightarrow>
          if ct \<noteq> [] then
            (if startswith ct ''image/'' then SendPhoto chat (url a) caption reply_to
             else if startswith ct ''video/'' then SendVideo chat (url a) caption reply_to
             else SendDocument chat (url a) caption reply_to)
          else SendDocument chat (url a) caption reply_to)"

text \<open>
  The attachment loop. \<open>env k\<close> is what the \<open>k\<close>-th Bot API call of this handler run
  does. Every answer, successful or not, replaces \<open>telegram_msg\<close>; a call that raises
  leaves the loop (and the handler's \<open>try\<close> block). The result is the final
  \<open>telegram_msg\<close> and the calls made.
\<close>

fun send_attachments ::
  "(nat \<Rightarrow> tg_response outcome) \<Rightarrow> nat \<Rightarrow> (attachment \<Rightarrow> tg_call) \<Rightarrow> attachment list \<Rightarrow>
   tg_response option \<Rightarrow> tg_response option outcome \<times> tg_call list" where
  "send_attachments env k mk [] telegram_msg = (Returns telegram_msg, [])"
| "send_attachments env k mk (a # as) telegram_msg =
     (case env k of
        Raises \<Rightarrow> (Raises, [mk a])
      | Returns r \<Rightarrow>
          (case send_attachments env (Suc k) mk as (Some r) of
             (res, calls) \<Rightarrow> (res, mk a # calls)))"

text \<open>The sends of one message: the text first when there is content, then the loop.\<close>

definition discord_sends ::
  "(nat \<Rightarrow> tg_response outcome) \<Rightarrow> sync_state \<Rightarrow> discord_message \<Rightarrow>
   tg_response option outcome \<times> tg_call list" where
  "discord_sends env s message =
     (let reply_to = reply_target s message;
          chat = telegram_chat_id s;
          mk = attachment_call chat (caption_of message) reply_to
      in if content message \<noteq> [] then
           (let call = SendMessage chat (text_line message) reply_to in
            case env 0 of
              Raises \<Rightarrow> (Raises, [call])
            | Returns r \<Rightarrow>
                (case send_attachments env 1 mk (attachments message) (Some r) of
                   (res, calls) \<Rightarrow> (res, call # calls)))
         else send_attachments env 0 mk (attachments message) None)"

text \<open>
  The mapping step after the sends: only when the final \<open>telegram_msg\<close> is there and
  \<open>ok\<close>. Reading \<open>['result']['message_id']\<close> raises when the answer has none.
\<close>

definition record_correlation ::
  "sync_state \<Rightarrow> discord_message \<Rightarrow> tg_response option \<Rightarrow> sync_state outcome" where
  "record_correlation s message telegram_msg =
     (case telegram_msg of
        None \<Rightarrow> Returns s
      | Some r \<Rightarrow>
          if ok r then
            (case result_message_id r of
               None \<Rightarrow> Raises
             | Some telegram_msg_id \<Rightarrow>
                 Returns (s\<lparr>discord_to_telegram := (discord_to_telegram s)
                               (str_int (message_id message) \<mapsto>
                                  (telegram_msg_id, author_display_name message, author_id message)),
                             telegram_to_discord := (telegram_to_discord s)
                               (telegram_msg_id \<mapsto>
                                  (str_int (message_id message), author_display_name message,
                                   author_id message))\<rparr>))
          else Returns s)"

definition handle_discord_message ::
  "(nat \<Rightarrow> tg_response outcome) \<Rightarrow> sync_state \<Rightarrow> discord_message \<Rightarrow> sync_state \<times> event list" where
  "handle_discord_message env s message =
     (case discord_sends env s message of
        (Raises, calls) \<Rightarrow>
          (s, map TgCall calls @ [Logged Error ''Error processing Discord message''])
      | (Returns telegram_msg, calls) \<Rightarrow>
          (case record_correlation s message telegram_msg of
             Raises \<Rightarrow> (s, map TgCall calls @ [Logged Error ''Error processing Discord message''])
           | Returns s' \<Rightarrow> (s', map TgCall calls)))"

text \<open>The two registered Discord event callbacks, with their filters.\<close>

definition on_message ::
  "(nat \<Rightarrow> tg_response outcome) \<Rightarrow> sync_state \<Rightarrow> discord_message \<Rightarrow> sync_state \<times> event list" where
  "on_message env s message =
     (if author_is_bot_user message then (s, [])
      else if (case msg_webhook_id message of None \<Rightarrow> False | Some w \<Rightarrow> w \<noteq> 0) then (s, [])
      else if msg_channel_id message = discord_channel_id s
           then handle_discord_message env s message
      else (s, []))"

definition on_message_delete ::
  "tg_response outcome \<Rightarrow> sync_state \<Rightarrow> discord_message \<Rightarrow> sync_state \<times> event list" where
  "on_message_delete env s message =
     (if (case msg_webhook_id message of None \<Rightarrow> False | Some w \<Rightarrow> w \<noteq> 0) then (s, [])
      else if msg_channel_id message = discord_channel_id s
           then handle_discord_message_delete env s message
      else (s, []))"

section \<open>Telegram updates\<close>

record tg_user =
  username :: "string option"
  first_name :: "string option"
  user_id :: "int option"

record photo_size =
  file_id :: string
  width :: "int option"

record sticker =
  sticker_file_id :: string
  is_animated :: bool
  is_video :: bool
  thumbnail :: "string option"
  emoji :: "string option"

text \<open>
  A Telegram message as \<open>handle_telegram_message\<close> reads it: every key is optional;
  \<open>video\<close>, \<open>document\<close>, \<open>voice\<close> and \<open>animation\<close> hold the \<open>file_id\<close> of the
  object, \<open>reply_to_message\<close> the id of the message replied to, \<open>photo\<close> the list of
  sizes (empty when absent).
\<close>

record tg_message =
  tg_message_id :: "int option"
  from_user :: "tg_user option"
  chat_id :: "int option"
  reply_to_message :: "int option"
  msg_text :: "string option"
  photo :: "photo_size list"
  video :: "string option"
  document :: "string option"
  voice :: "string option"
  animation :: "string option"
  sticker_of :: "sticker option"
  caption :: "string option"

text \<open>
  An update. \<open>deleted_message\<close> is \<open>None\<close> when the key is absent, \<open>Some None\<close> when it
  is present without a message id, \<open>Some (Some i)\<close> otherwise.
\<close>

record update =
  update_id :: int
  deleted_message :: "int option option"
  message :: "tg_message option"

text \<open>
  What the outside does during one run of \<open>handle_telegram_message\<close>: the profile-photo
  lookup, the file download, the webhook post (the id of the posted message, \<open>None\<close> on
  a status other than 200 or 204), whether the temporary file exists, whether removing
  it raises, whether the Discord channel is in the cache, and the status of the webhook
  delete request. A run makes each of these at most once.
\<close>

datatype avatar_lookup = AvatarRaises | NoPhoto | PhotoUrl string

record tg_env =
  avatar_result :: avatar_lookup
  download_result :: "string option outcome"
  post_result :: "string option outcome"
  path_exists :: bool
  remove_raises :: bool
  channel_found :: bool
  webhook_delete_status :: "int outcome"

subsection \<open>Helpers of the Telegram side\<close>

definition truthy_str :: "string option \<Rightarrow> bool" where
  "truthy_str x = (case x of None \<Rightarrow> False | Some v \<Rightarrow> v \<noteq> [])"

definition get_telegram_user_avatar :: "tg_env \<Rightarrow> int option \<Rightarrow> string \<times> event list" where
  "get_telegram_user_avatar env uid =
     (let placeholder = ''https://api.dicebear.com/7.x/initials/svg?seed='' @
                        (case uid of None \<Rightarrow> ''None'' | Some u \<Rightarrow> str_int u)
      in case avatar_result env of
           PhotoUrl file_url \<Rightarrow> (file_url, [GetAvatar uid])
         | NoPhoto \<Rightarrow> (placeholder, [GetAvatar uid])
         | AvatarRaises \<Rightarrow> (placeholder, [GetAvatar uid, Logged Error ''Error fetching avatar'']))"

definition download_telegram_file :: "tg_env \<Rightarrow> string \<Rightarrow> string option \<times> event list" where
  "download_telegram_file env fid =
     (case download_result env of
        Raises \<Rightarrow> (None, [Download fid, Logged Error ''Error downloading file from Telegram''])
      | Returns r \<Rightarrow> (r, [Download fid]))"

text \<open>
  \<open>send_webhook_message\<close>: the file is attached only when \<open>file_path\<close> is truthy and
  the path exists; the result is the id of the mock message or \<open>None\<close>.
\<close>

definition send_webhook_message ::
  "tg_env \<Rightarrow> string \<Rightarrow> string \<Rightarrow> string \<Rightarrow> string option \<Rightarrow> string option \<times> event list" where
  "send_webhook_message env uname avatar body file_path =
     (let attached = (if truthy_str file_path \<and> path_exists env then file_path else None);
          post = WebhookPost uname avatar body attached
      in case post_result env of
           Raises \<Rightarrow> (None, [post, Logged Error ''Error sending webhook''])
         | Returns r \<Rightarrow> (r, [post]))"

text \<open>The clean-up after a send: \<open>if file_path and os.path.exists(file_path): os.remove(file_path)\<close>.\<close>

definition remove_temp :: "tg_env \<Rightarrow> string option \<Rightarrow> unit outcome \<times> event list" where
  "remove_temp env file_path =
     (case file_path of
        None \<Rightarrow> (Returns (), [])
      | Some p \<Rightarrow>
          if p \<noteq> [] \<and> path_exists env then
            (if remove_raises env then (Raises, [RemoveFile p]) else (Returns (), [RemoveFile p]))
          else (Returns (), []))"

text \<open>\<open>webhook_url.split('/')\<close>.\<close>

fun split_slash :: "string \<Rightarrow> string list" where
  "split_slash [] = [[]]"
| "split_slash (c # cs) =
     (if c = CHR ''/'' then [] # split_slash cs
      else (case split_slash cs of [] \<Rightarrow> [[c]] | p # ps \<Rightarrow> (c # p) # ps))"

definition extract_webhook_info :: "string \<Rightarrow> string option \<times> string option" where
  "extract_webhook_info u =
     (let parts = split_slash u in
      if length parts \<ge> 2
      then (Some (parts ! (length parts - 2)), Some (parts ! (length parts - 1)))
      else (None, None))"

definition delete_webhook_message :: "tg_env \<Rightarrow> sync_state \<Rightarrow> string \<Rightarrow> event list" where
  "delete_webhook_message env s message_identifier =
     (case extract_webhook_info (webhook_url s) of
        (Some wid, Some wtoken) \<Rightarrow>
          if wid \<noteq> [] \<and> wtoken \<noteq> [] then
            (let req = WebhookDelete (''https://discord.com/api/webhooks/'' @ wid @ ''/'' @ wtoken @
                                      ''/messages/'' @ message_identifier)
             in case webhook_delete_status env of
                  Raises \<Rightarrow> [req, Logged Error ''Error deleting webhook message'']
                | Returns st \<Rightarrow>
                    if st = 204 then [req, Logged Info ''Webhook message deleted'']
                    else [req, Logged Warning ''Failed to delete webhook message''])
          else []
      | _ \<Rightarrow> [])"

subsection \<open>\<open>handle_telegram_message_delete\<close>\<close>

text \<open>
  Inside the inner \<open>try\<close> nothing raises: \<open>get_channel\<close> is a cache lookup and
  \<open>delete_webhook_message\<close> catches every exception itself, so both tables are always
  purged when the Telegram id is a key of \<open>telegram_to_discord\<close>.
\<close>

definition handle_telegram_message_delete ::
  "tg_env \<Rightarrow> sync_state \<Rightarrow> update \<Rightarrow> sync_state \<times> event list" where
  "handle_telegram_message_delete env s upd =
     (case deleted_message upd of
        None \<Rightarrow> (s, [])
      | Some None \<Rightarrow> (s, [])
      | Some (Some mid) \<Rightarrow>
          if mid = 0 then (s, [])
          else
            (case telegram_to_discord s mid of
               Some (discord_msg_id, uname, uid) \<Rightarrow>
                 (s\<lparr>telegram_to_discord := (telegram_to_discord s)(mid := None),
                    discord_to_telegram := (discord_to_telegram s)(discord_msg_id := None)\<rparr>,
                  (if channel_found env then delete_webhook_message env s discord_msg_id else []) @
                  [Logged Info ''Message deleted in Discord''])
             | None \<Rightarrow>
                 (case telegram_to_webhook s mid of
                    Some wid \<Rightarrow>
                      (s\<lparr>telegram_to_webhook := (telegram_to_webhook s)(mid := None),
                         webhook_to_telegram := (webhook_to_telegram s)(wid := None)\<rparr>, [])
                  | None \<Rightarrow> (s, []))))"

subsection \<open>\<open>handle_telegram_message\<close>\<close>

definition newline :: char where
  "newline = CHR 0x0A"

definition display_name_of :: "tg_user option \<Rightarrow> string" where
  "display_name_of usr =
     (case usr of
        None \<Rightarrow> ''User''
      | Some u \<Rightarrow>
          (case username u of
             Some n \<Rightarrow> n
           | None \<Rightarrow> (case first_name u of Some f \<Rightarrow> f | None \<Rightarrow> ''User'')))"

definition reply_prefix :: "sync_state \<Rightarrow> tg_message \<Rightarrow> string" where
  "reply_prefix s m =
     (case reply_to_message m of
        None \<Rightarrow> []
      | Some replied_msg_id \<Rightarrow>
          (case telegram_to_discord s replied_msg_id of
             Some (discord_msg_id, original_username, original_user_id) \<Rightarrow>
               ''> '' @ speech_balloon @ '' Replying to **'' @ original_username @ ''**'' @
               [newline, newline]
           | None \<Rightarrow>
               (case telegram_to_webhook s replied_msg_id of
                  Some wid \<Rightarrow>
                    ''> '' @ speech_balloon @ '' Replying to previous message'' @ [newline, newline]
                | None \<Rightarrow> [])))"

definition with_caption :: "string \<Rightarrow> tg_message \<Rightarrow> string" where
  "with_caption reply_text m =
     (case caption m of
        None \<Rightarrow> reply_text
      | Some c \<Rightarrow> if c \<noteq> [] then reply_text @ c else reply_text)"

text \<open>Download, post with the file, remove the temporary file: the shape of every media branch.\<close>

definition relay_file ::
  "tg_env \<Rightarrow> string \<Rightarrow> string \<Rightarrow> string \<Rightarrow> string \<Rightarrow> string option outcome \<times> event list" where
  "relay_file env uname avatar body fid =
     (case download_telegram_file env fid of
        (file_path, e1) \<Rightarrow>
          (case send_webhook_message env uname avatar body file_path of
             (discord_msg, e2) \<Rightarrow>
               (case remove_temp env file_path of
                  (Raises, e3) \<Rightarrow> (Raises, e1 @ e2 @ e3)
                | (Returns u, e3) \<Rightarrow> (Returns discord_msg, e1 @ e2 @ e3))))"

text \<open>\<open>max(message['photo'], key=lambda p: p.get('width', 0))\<close>: the first widest size.\<close>

definition width_key :: "photo_size \<Rightarrow> int" where
  "width_key p = (case width p of None \<Rightarrow> 0 | Some w \<Rightarrow> w)"

fun max_by_width :: "photo_size \<Rightarrow> photo_size list \<Rightarrow> photo_size" where
  "max_by_width best [] = best"
| "max_by_width best (p # ps) =
     max_by_width (if width_key p > width_key best then p else best) ps"

definition theatre_masks :: string where
  "theatre_masks = [CHR 0xF0, CHR 0x9F, CHR 0x8E, CHR 0xAD]"

definition camera :: string where
  "camera = [CHR 0xF0, CHR 0x9F, CHR 0x93, CHR 0xB7]"

definition microphone :: string where
  "microphone = [CHR 0xF0, CHR 0x9F, CHR 0x8E, CHR 0xA4]"

definition relay_sticker ::
  "tg_env \<Rightarrow> string \<Rightarrow> string \<Rightarrow> string \<Rightarrow> sticker \<Rightarrow> string option outcome \<times> event list" where
  "relay_sticker env uname avatar reply_text st =
     (let animated = (is_animated st \<or> is_video st) in
      case (if animated
            then (case thumbnail st of
                    None \<Rightarrow> (None, [])
                  | Some t \<Rightarrow> download_telegram_file env t)
            else download_telegram_file env (sticker_file_id st)) of
        (file_path, e1) \<Rightarrow>
          (case (if animated \<and> \<not> truthy_str file_path
                 then send_webhook_message env uname avatar
                        (reply_text @ theatre_masks @ '' '' @
                         (case emoji st of None \<Rightarrow> camera | Some e \<Rightarrow> e)) None
                 else (None, [])) of
             (msg1, e2) \<Rightarrow>
               if truthy_str file_path then
                 (case send_webhook_message env uname avatar reply_text file_path of
                    (msg2, e3) \<Rightarrow>
                      (case remove_temp env file_path of
                         (Raises, e4) \<Rightarrow> (Raises, e1 @ e2 @ e3 @ e4)
                       | (Returns u, e4) \<Rightarrow> (Returns msg2, e1 @ e2 @ e3 @ e4)))
               else (Returns msg1, e1 @ e2)))"

text \<open>The \<open>if\<close>/\<open>elif\<close> chain over the kinds of content, in the source's order.\<close>

definition relay_content ::
  "tg_env \<Rightarrow> string \<Rightarrow> string \<Rightarrow> string \<Rightarrow> tg_message \<Rightarrow> string option outcome \<times> event list" where
  "relay_content env uname avatar reply_text m =
     (if truthy_str (msg_text m) then
        (case send_webhook_message env uname avatar (reply_text @ the (msg_text m)) None of
           (discord_msg, e) \<Rightarrow> (Returns discord_msg, e))
      else if photo m \<noteq> [] then
        relay_file env uname avatar (with_caption reply_text m)
          (file_id (max_by_width (hd (photo m)) (tl (photo m))))
      else if video m \<noteq> None then
        relay_file env uname avatar (with_caption reply_text m) (the (video m))
      else if document m \<noteq> None then
        relay_file env uname avatar (with_caption reply_text m) (the (document m))
      else if voice m \<noteq> None then
        relay_file env uname avatar (reply_text @ microphone @ '' Audio'') (the (voice m))
      else if animation m \<noteq> None then
        relay_file env uname avatar (with_caption reply_text m) (the (animation m))
      else (case sticker_of m of
              Some st \<Rightarrow> relay_sticker env uname avatar reply_text st
            | None \<Rightarrow> (Returns None, [])))"

text \<open>The mapping step: \<open>if discord_msg and message_id\<close>.\<close>

definition record_relay :: "sync_state \<Rightarrow> string option \<Rightarrow> int option \<Rightarrow> sync_state" where
  "record_relay s discord_msg mid =
     (case discord_msg of
        None \<Rightarrow> s
      | Some webhook_timestamp \<Rightarrow>
          (case mid of
             None \<Rightarrow> s
           | Some i \<Rightarrow>
               if i \<noteq> 0 then
                 s\<lparr>telegram_to_webhook := (telegram_to_webhook s)(i \<mapsto> webhook_timestamp),
                   webhook_to_telegram := (webhook_to_telegram s)(webhook_timestamp \<mapsto> i)\<rparr>
               else s))"

definition handle_telegram_message ::
  "tg_env \<Rightarrow> sync_state \<Rightarrow> update \<Rightarrow> sync_state \<times> event list" where
  "handle_telegram_message env s upd =
     (case deleted_message upd of
        Some d \<Rightarrow> handle_telegram_message_delete env s upd
      | None \<Rightarrow>
          (case message upd of
             None \<Rightarrow> (s, [])
           | Some m \<Rightarrow>
               if chat_id m \<noteq> Some (telegram_chat_id s) then (s, [])
               else
                 (case get_telegram_user_avatar env
                         (case from_user m of None \<Rightarrow> None | Some u \<Rightarrow> user_id u) of
                    (avatar, e0) \<Rightarrow>
                      (case relay_content env (display_name_of (from_user m)) avatar
                              (reply_prefix s m) m of
                         (Raises, e1) \<Rightarrow>
                           (s, e0 @ e1 @ [Logged Error ''Error processing Telegram message''])
                       | (Returns discord_msg, e1) \<Rightarrow>
                           (record_relay s discord_msg (tg_message_id m), e0 @ e1)))))"

section \<open>The poll loop\<close>





section \<open>Concrete inputs\<close>

text \<open>A scripted outside: the \<open>k\<close>-th call gets the \<open>k\<close>-th entry, and raises past the end.\<close>

definition script :: "'a outcome list \<Rightarrow> nat \<Rightarrow> 'a outcome" where
  "script rs k = (if k < length rs then rs ! k else Raises)"

definition always :: "'a \<Rightarrow> nat \<Rightarrow> 'a" where
  "always e k = e"

definition tg_ok :: "int \<Rightarrow> tg_response" where
  "tg_ok i = \<lparr>ok = True, result_message_id = Some i\<rparr>"

definition tg_fail :: tg_response where
  "tg_fail = \<lparr>ok = False, result_message_id = None\<rparr>"

definition fresh_state :: sync_state where
  "fresh_state =
     \<lparr>webhook_url = ''https://discord.com/api/webhooks/11/tok'',
      discord_channel_id = 10,
      telegram_chat_id = - 100,
      discord_to_telegram = Map.empty,
      telegram_to_discord = Map.empty,
      webhook_to_telegram = Map.empty,
      telegram_to_webhook = Map.empty,
      telegram_offset = 0\<rparr>"

definition plain_message :: "int \<Rightarrow> string \<Rightarrow> attachment list \<Rightarrow> discord_message" where
  "plain_message i body atts =
     \<lparr>message_id = i, author_display_name = ''Ann'', author_id = 1,
      author_is_bot_user = False, msg_webhook_id = None, msg_channel_id = 10,
      content = body, reference = None, attachments = atts\<rparr>"

definition image_png :: attachment where
  "image_png = \<lparr>content_type = Some ''image/png'', url = ''u1''\<rparr>"

definition video_mp4 :: attachment where
  "video_mp4 = \<lparr>content_type = Some ''video/mp4'', url = ''u2''\<rparr>"

definition pdf_file :: attachment where
  "pdf_file = \<lparr>content_type = Some ''application/pdf'', url = ''u4''\<rparr>"

definition untyped_file :: attachment where
  "untyped_file = \<lparr>content_type = None, url = ''u3''\<rparr>"

text \<open>The state after message 7 of Ann was relayed as Telegram message 5.\<close>

definition paired_state :: sync_state where
  "paired_state =
     fresh_state\<lparr>discord_to_telegram := [''7'' \<mapsto> (5, ''Ann'', 1)],
                 telegram_to_discord := [5 \<mapsto> (''7'', ''Ann'', 1)]\<rparr>"

definition quiet_env :: tg_env where
  "quiet_env =
     \<lparr>avatar_result = NoPhoto, download_result = Returns None, post_result = Returns None,
      path_exists = False, remove_raises = False, channel_found = False,
      webhook_delete_status = Returns 204\<rparr>"


definition deletion_update :: "int \<Rightarrow> int \<Rightarrow> update" where
  "deletion_update i mid = \<lparr>update_id = i, deleted_message = Some (Some mid), message = None\<rparr>"

section \<open>Notions used in the statements\<close>

text \<open>The answer of a call that returned.\<close>

fun answer :: "'a outcome \<Rightarrow> 'a option" where
  "answer Raises = None"
| "answer (Returns r) = Some r"

text \<open>All the sends that \<open>handle_discord_message\<close> attempts for a message, in order.\<close>

definition planned_sends :: "sync_state \<Rightarrow> discord_message \<Rightarrow> tg_call list" where
  "planned_sends s msg =
     (if content msg \<noteq> []
      then [SendMessage (telegram_chat_id s) (text_line msg) (reply_target s msg)]
      else []) @
     map (attachment_call (telegram_chat_id s) (caption_of msg) (reply_target s msg))
       (attachments msg)"

text \<open>
  The two direct tables are inverse to each other: every entry of one has its mirror
  entry in the other. Then no Discord key and no Telegram id occurs in two pairs.
\<close>

definition correlated_once :: "sync_state \<Rightarrow> bool" where
  "correlated_once s =
     ((\<forall>d t n a. discord_to_telegram s d = Some (t, n, a) \<longrightarrow>
          (\<exists>n' a'. telegram_to_discord s t = Some (d, n', a'))) \<and>
      (\<forall>t d n a. telegram_to_discord s t = Some (d, n, a) \<longrightarrow>
          (\<exists>n' a'. discord_to_telegram s d = Some (t, n', a'))))"




text \<open>A reply by Ann to message 7, with text and one image.\<close>

definition reply_message :: discord_message where
  "reply_message = (plain_message 8 ''yo'' [image_png])\<lparr>reference := Some (Some 7)\<rparr>"

text \<open>The state after Telegram message 9 was posted through the webhook as \<open>w1\<close>.\<close>

definition relayed_state :: sync_state where
  "relayed_state =
     fresh_state\<lparr>webhook_to_telegram := [''w1'' \<mapsto> 9],
                 telegram_to_webhook := [9 \<mapsto> ''w1'']\<rparr>"

text \<open>A message by Ann with text and four attachments of different kinds.\<close>

definition mixed_message :: discord_message where
  "mixed_message = plain_message 7 ''hi'' [image_png, video_mp4, pdf_file, untyped_file]"




section \<open>The sends of \<open>handle_discord_message\<close>\<close>

lemma send_attachments_calls:
  "(\<forall>i < length as. env (k + i) \<noteq> Raises) \<Longrightarrow>
   send_attachments env k mk as prev =
     (Returns (if as = [] then prev else answer (env (k + length as - 1))), map mk as)"
proof (induction as arbitrary: k prev)
  case Nil
  then show ?case by simp
next
  case (Cons a as)
  from Cons.prems have "env (k + 0) \<noteq> Raises" by (metis length_greater_0_conv list.distinct(1))
  then obtain r where r: "env k = Returns r" by (cases "env k") auto
  have "\<forall>i < length as. env (Suc k + i) \<noteq> Raises"
    using Cons.prems by auto
  from Cons.IH[OF this, of "Some r"] show ?case
    using r by (cases as) auto
qed

lemma send_attachments_raise:
  "j < length as \<Longrightarrow> env (k + j) = Raises \<Longrightarrow> (\<forall>i < j. env (k + i) \<noteq> Raises) \<Longrightarrow>
   send_attachments env k mk as prev = (Raises, map mk (take (Suc j) as))"
proof (induction as arbitrary: k j prev)
  case Nil
  then show ?case by simp
next
  case (Cons a as)
  show ?case
  proof (cases j)
    case 0
    with Cons.prems show ?thesis by simp
  next
    case (Suc j')
    with Cons.prems have "env (k + 0) \<noteq> Raises" by blast
    then obtain r where r: "env k = Returns r" by (cases "env k") auto
    have a: "j' < length as" "env (Suc k + j') = Raises" "\<forall>i < j'. env (Suc k + i) \<noteq> Raises"
      using Cons.prems Suc by auto
    from Cons.IH[OF a, of "Some r"] show ?thesis
      using r Suc by simp
  qed
qed

lemma discord_sends_all:
  "(\<forall>i < length (planned_sends s m). env i \<noteq> Raises) \<Longrightarrow>
   discord_sends env s m =
     (Returns (if planned_sends s m = [] then None
               else answer (env (length (planned_sends s m) - 1))),
      planned_sends s m)"
proof (cases "content m = []")
  case True
  assume h: "\<forall>i < length (planned_sends s m). env i \<noteq> Raises"
  with True have "\<forall>i < length (attachments m). env (0 + i) \<noteq> Raises"
    by (simp add: planned_sends_def)
  from send_attachments_calls[OF this] True show ?thesis
    by (simp add: discord_sends_def planned_sends_def Let_def)
next
  case False
  assume h: "\<forall>i < length (planned_sends s m). env i \<noteq> Raises"
  with False have "env 0 \<noteq> Raises" by (simp add: planned_sends_def)
  then obtain r where r: "env 0 = Returns r" by (cases "env 0") auto
  from h False have "\<forall>i < length (attachments m). env (1 + i) \<noteq> Raises"
    by (simp add: planned_sends_def)
  from send_attachments_calls[OF this] False r show ?thesis
    by (simp add: discord_sends_def planned_sends_def Let_def)
qed

lemma discord_sends_raise:
  "j < length (planned_sends s m) \<Longrightarrow> env j = Raises \<Longrightarrow> (\<forall>i < j. env i \<noteq> Raises) \<Longrightarrow>
   discord_sends env s m = (Raises, take (Suc j) (planned_sends s m))"
proof (cases "content m = []")
  case True
  assume h: "j < length (planned_sends s m)" "env j = Raises" "\<forall>i < j. env i \<noteq> Raises"
  with True have "j < length (attachments m)" "env (0 + j) = Raises" "\<forall>i < j. env (0 + i) \<noteq> Raises"
    by (simp_all add: planned_sends_def)
  from send_attachments_raise[OF this] True show ?thesis
    by (simp add: discord_sends_def planned_sends_def Let_def take_map)
next
  case False
  assume h: "j < length (planned_sends s m)" "env j = Raises" "\<forall>i < j. env i \<noteq> Raises"
  show ?thesis
  proof (cases j)
    case 0
    with h False show ?thesis by (simp add: discord_sends_def planned_sends_def Let_def)
  next
    case (Suc j')
    with h have "env 0 \<noteq> Raises" by blast
    then obtain r where r: "env 0 = Returns r" by (cases "env 0") auto
    from h False Suc have "j' < length (attachments m)" "env (1 + j') = Raises" "\<forall>i < j'. env (1 + i) \<noteq> Raises"
      by (auto simp add: planned_sends_def)
    from send_attachments_raise[OF this] False r Suc show ?thesis
      by (simp add: discord_sends_def planned_sends_def Let_def take_map)
  qed
qed

lemma str_int_7: "str_int 7 = ''7''"
  by code_simp

lemma str_int_8: "str_int 8 = ''8''"
  by code_simp

lemma send_attachments_prefix:
  "\<exists>n. snd (send_attachments env k mk as prev) = take n (map mk as)"
proof (induction as arbitrary: k prev)
  case Nil
  then show ?case by simp
next
  case (Cons a as)
  show ?case
  proof (cases "env k")
    case Raises
    then have "snd (send_attachments env k mk (a # as) prev) = take 1 (map mk (a # as))"
      by simp
    then show ?thesis by blast
  next
    case (Returns r)
    from Cons.IH[of "Suc k" "Some r"] obtain n
      where "snd (send_attachments env (Suc k) mk as (Some r)) = take n (map mk as)" by blast
    with Returns have "snd (send_attachments env k mk (a # as) prev) = take (Suc n) (map mk (a # as))"
      by (auto split: prod.splits)
    then show ?thesis by blast
  qed
qed

lemma discord_sends_prefix:
  "\<exists>n. snd (discord_sends env s m) = take n (planned_sends s m)"
proof (cases "content m = []")
  case True
  then show ?thesis
    using send_attachments_prefix[of env 0 _ "attachments m" None]
    by (simp add: discord_sends_def planned_sends_def Let_def)
next
  case False
  show ?thesis
  proof (cases "env 0")
    case Raises
    with False have "snd (discord_sends env s m) = take 1 (planned_sends s m)"
      by (simp add: discord_sends_def planned_sends_def Let_def)
    then show ?thesis by blast
  next
    case (Returns r)
    from send_attachments_prefix[of env 1
        "attachment_call (telegram_chat_id s) (caption_of m) (reply_target s m)"
        "attachments m" "Some r"]
    obtain n where "snd (send_attachments env 1
        (attachment_call (telegram_chat_id s) (caption_of m) (reply_target s m))
        (attachments m) (Some r)) =
        take n (map (attachment_call (telegram_chat_id s) (caption_of m) (reply_target s m))
                  (attachments m))" by blast
    with False Returns have "snd (discord_sends env s m) = take (Suc n) (planned_sends s m)"
      by (auto simp add: discord_sends_def planned_sends_def Let_def split: prod.splits)
    then show ?thesis by blast
  qed
qed

lemma discord_sends_subset: "set (snd (discord_sends env s m)) \<subseteq> set (planned_sends s m)"
  using discord_sends_prefix[of env s m] by (auto dest: in_set_takeD)

lemma reply_to_of_attachment_call: "reply_to_of (attachment_call chat cap r a) = r"
  by (simp add: attachment_call_def split: option.splits)

lemma planned_sends_reply_to:
  "c \<in> set (planned_sends s m) \<Longrightarrow> reply_to_of c = reply_target s m"
  by (auto simp: planned_sends_def reply_to_of_attachment_call split: if_splits)

subsection \<open>A message with nothing to relay\<close>

text \<open>
  Claim C10. A Discord message with empty text and no attachments makes
  \<open>handle_discord_message\<close> send nothing and log nothing (the trace is empty, so no error
  was caught), and the whole state, the four tables included, is returned as it was.
\<close>

theorem empty_message_relays_nothing:
  "content m = [] \<Longrightarrow> attachments m = [] \<Longrightarrow> handle_discord_message env s m = (s, [])"
  by (simp add: handle_discord_message_def discord_sends_def record_correlation_def Let_def)

theorem empty_message_relays_nothing_witness:
  "content (plain_message 7 [] []) = [] \<and> attachments (plain_message 7 [] []) = [] \<and>
   handle_discord_message (script []) fresh_state (plain_message 7 [] []) = (fresh_state, [])"
  using empty_message_relays_nothing [of "plain_message 7 [] []" "script []" fresh_state]
  by (simp add: plain_message_def)

section \<open>Deletion of a Discord message\<close>

lemma purge_differs:
  "discord_to_telegram s k = Some v \<Longrightarrow>
   s\<lparr>discord_to_telegram := (discord_to_telegram s)(k := None), telegram_to_discord := g\<rparr> \<noteq> s"
proof
  assume v: "discord_to_telegram s k = Some v"
  assume "s\<lparr>discord_to_telegram := (discord_to_telegram s)(k := None), telegram_to_discord := g\<rparr> = s"
  then have "discord_to_telegram
      (s\<lparr>discord_to_telegram := (discord_to_telegram s)(k := None), telegram_to_discord := g\<rparr>) k =
      discord_to_telegram s k"
    by simp
  with v show False by simp
qed

text \<open>
  Claim C7. \<open>handle_discord_message_delete\<close> changes the state exactly when the deleted
  message has a correlation and the Telegram delete answers \<open>ok\<close>. Without a correlation it
  makes no call and logs nothing; when the delete answers without \<open>ok\<close> the state is
  returned as it was, after one call and one warning; when it answers \<open>ok\<close> both halves
  of the correlation are gone.
\<close>

theorem discord_delete_purges_iff_telegram_ok:
  "(fst (handle_discord_message_delete env s m) \<noteq> s \<longleftrightarrow>
      (\<exists>t n a r. discord_to_telegram s (str_int (message_id m)) = Some (t, n, a) \<and>
                 env = Returns r \<and> ok r)) \<and>
   (discord_to_telegram s (str_int (message_id m)) = None \<longrightarrow>
      handle_discord_message_delete env s m = (s, [])) \<and>
   (\<forall>t n a r. discord_to_telegram s (str_int (message_id m)) = Some (t, n, a) \<and>
              env = Returns r \<and> \<not> ok r \<longrightarrow>
      handle_discord_message_delete env s m =
        (s, [TgCall (DeleteMessage (telegram_chat_id s) t),
             Logged Warning ''Failed to delete message in Telegram''])) \<and>
   (\<forall>t n a r. discord_to_telegram s (str_int (message_id m)) = Some (t, n, a) \<and>
              env = Returns r \<and> ok r \<longrightarrow>
      discord_to_telegram (fst (handle_discord_message_delete env s m))
        (str_int (message_id m)) = None \<and>
      telegram_to_discord (fst (handle_discord_message_delete env s m)) t = None)"
  by (auto simp: handle_discord_message_delete_def Let_def purge_differs
           split: option.splits outcome.splits)

theorem discord_delete_purges_iff_telegram_ok_witness:
  "handle_discord_message_delete (Returns tg_fail) fresh_state (plain_message 7 ''hi'' []) =
     (fresh_state, []) \<and>
   handle_discord_message_delete (Returns tg_fail) paired_state (plain_message 7 ''hi'' []) =
     (paired_state, [TgCall (DeleteMessage (- 100) 5),
                     Logged Warning ''Failed to delete message in Telegram'']) \<and>
   fst (handle_discord_message_delete (Returns (tg_ok 5)) paired_state (plain_message 7 ''hi'' []))
     \<noteq> paired_state \<and>
   discord_to_telegram
     (fst (handle_discord_message_delete (Returns (tg_ok 5)) paired_state (plain_message 7 ''hi'' [])))
     ''7'' = None \<and>
   telegram_to_discord
     (fst (handle_discord_message_delete (Returns (tg_ok 5)) paired_state (plain_message 7 ''hi'' [])))
     5 = None"
  using discord_delete_purges_iff_telegram_ok
          [of "Returns tg_fail" fresh_state "plain_message 7 ''hi'' []"]
        discord_delete_purges_iff_telegram_ok
          [of "Returns tg_fail" paired_state "plain_message 7 ''hi'' []"]
        discord_delete_purges_iff_telegram_ok
          [of "Returns (tg_ok 5)" paired_state "plain_message 7 ''hi'' []"]
  by (simp add: str_int_7 plain_message_def paired_state_def fresh_state_def tg_ok_def tg_fail_def)

section \<open>Replies from Discord\<close>

lemma reply_target_unrecorded:
  "reference m = Some (Some rid) \<Longrightarrow> discord_to_telegram s (str_int rid) = None \<Longrightarrow>
   reply_target s m = None"
  by (simp add: reply_target_def)

lemma handle_discord_message_all:
  assumes "\<forall>i < length (planned_sends s m). env i \<noteq> Raises"
  shows "handle_discord_message env s m =
     (case record_correlation s m
             (if planned_sends s m = [] then None
              else answer (env (length (planned_sends s m) - 1))) of
        Raises \<Rightarrow> (s, map TgCall (planned_sends s m) @
                       [Logged Error ''Error processing Discord message''])
      | Returns s' \<Rightarrow> (s', map TgCall (planned_sends s m)))"
  using discord_sends_all[OF assms] by (simp add: handle_discord_message_def)

text \<open>
  Claim C8. A Discord message that replies to a message id without a recorded correlation
  is handled exactly as the same message without a reference: every send it makes carries
  no \<open>reply_to_message_id\<close>, and when every Bot API call answers (with a message id
  whenever it answers \<open>ok\<close>) the trace is the planned sends alone, with no error logged.
\<close>

theorem reply_to_unrecorded_is_unthreaded:
  assumes "reference m = Some (Some rid)"
    and "discord_to_telegram s (str_int rid) = None"
  shows "handle_discord_message env s m = handle_discord_message env s (m\<lparr>reference := None\<rparr>) \<and>
         (\<forall>c \<in> set (snd (discord_sends env s m)). reply_to_of c = None \<and> \<not> has_reply_hint c) \<and>
         ((\<forall>k. \<exists>r. env k = Returns r \<and> (ok r \<longrightarrow> result_message_id r \<noteq> None)) \<longrightarrow>
            snd (handle_discord_message env s m) = map TgCall (planned_sends s m))"
proof (intro conjI)
  have rt: "reply_target s m = None"
    using assms by (rule reply_target_unrecorded)
  have rt': "reply_target s (m\<lparr>reference := None\<rparr>) = None"
    by (simp add: reply_target_def)
  have "discord_sends env s m = discord_sends env s (m\<lparr>reference := None\<rparr>)"
    by (auto simp: discord_sends_def rt rt' text_line_def caption_of_def Let_def
             split: outcome.splits prod.splits)
  moreover have "record_correlation s m x = record_correlation s (m\<lparr>reference := None\<rparr>) x" for x
    by (simp add: record_correlation_def split: option.splits)
  ultimately show "handle_discord_message env s m =
      handle_discord_message env s (m\<lparr>reference := None\<rparr>)"
    by (simp add: handle_discord_message_def cong: prod.case_cong outcome.case_cong)
  show "\<forall>c \<in> set (snd (discord_sends env s m)). reply_to_of c = None \<and> \<not> has_reply_hint c"
  proof
    fix c assume "c \<in> set (snd (discord_sends env s m))"
    then have "c \<in> set (planned_sends s m)" using discord_sends_subset by blast
    then have "reply_to_of c = None" using planned_sends_reply_to rt by simp
    then show "reply_to_of c = None \<and> \<not> has_reply_hint c" by (simp add: has_reply_hint_def)
  qed
  show "(\<forall>k. \<exists>r. env k = Returns r \<and> (ok r \<longrightarrow> result_message_id r \<noteq> None)) \<longrightarrow>
          snd (handle_discord_message env s m) = map TgCall (planned_sends s m)"
  proof
    assume good: "\<forall>k. \<exists>r. env k = Returns r \<and> (ok r \<longrightarrow> result_message_id r \<noteq> None)"
    then have nr: "\<forall>i < length (planned_sends s m). env i \<noteq> Raises"
      by (metis outcome.distinct(1))
    obtain r where r: "env (length (planned_sends s m) - 1) = Returns r"
      "ok r \<longrightarrow> result_message_id r \<noteq> None" using good by blast
    show "snd (handle_discord_message env s m) = map TgCall (planned_sends s m)"
      using r by (auto simp: handle_discord_message_all[OF nr] record_correlation_def
                       split: option.splits)
  qed
qed

theorem reply_to_unrecorded_is_unthreaded_witness:
  "reference reply_message = Some (Some 7) \<and>
   discord_to_telegram fresh_state (str_int 7) = None \<and>
   handle_discord_message (always (Returns (tg_ok 6))) fresh_state reply_message =
     handle_discord_message (always (Returns (tg_ok 6))) fresh_state
       (reply_message\<lparr>reference := None\<rparr>) \<and>
   snd (handle_discord_message (always (Returns (tg_ok 6))) fresh_state reply_message) =
     [TgCall (SendMessage (- 100) (text_line reply_message) None),
      TgCall (SendPhoto (- 100) ''u1'' ''<b>Ann</b>: yo'' None)]"
proof -
  have a: "reference reply_message = Some (Some 7)"
    by (simp add: reply_message_def)
  have b: "discord_to_telegram fresh_state (str_int 7) = None"
    by (simp add: fresh_state_def)
  have c: "\<forall>k. \<exists>r. always (Returns (tg_ok 6)) k = Returns r \<and> (ok r \<longrightarrow> result_message_id r \<noteq> None)"
    by (simp add: always_def tg_ok_def)
  have d: "planned_sends fresh_state reply_message =
     [SendMessage (- 100) (text_line reply_message) None,
      SendPhoto (- 100) ''u1'' ''<b>Ann</b>: yo'' None]"
    by (simp add: planned_sends_def reply_message_def plain_message_def reply_target_def
          fresh_state_def attachment_call_def image_png_def startswith_def caption_of_def)
  note t = reply_to_unrecorded_is_unthreaded [OF a b, of "always (Returns (tg_ok 6))"]
  from t have e1: "handle_discord_message (always (Returns (tg_ok 6))) fresh_state reply_message =
     handle_discord_message (always (Returns (tg_ok 6))) fresh_state
       (reply_message\<lparr>reference := None\<rparr>)"
    by (rule conjunct1)
  from t c have "snd (handle_discord_message (always (Returns (tg_ok 6))) fresh_state reply_message) =
      map TgCall (planned_sends fresh_state reply_message)"
    by blast
  then have e3: "snd (handle_discord_message (always (Returns (tg_ok 6))) fresh_state reply_message) =
     [TgCall (SendMessage (- 100) (text_line reply_message) None),
      TgCall (SendPhoto (- 100) ''u1'' ''<b>Ann</b>: yo'' None)]"
    by (simp add: d)
  show ?thesis
    by (intro conjI a b e1 e3)
qed

section \<open>Which send is recorded\<close>

lemma script_two: "\<forall>i < Suc (Suc 0). script [Returns a, Returns b] i \<noteq> Raises"
  by (auto simp: script_def less_Suc_eq)

lemma script_0: "script (a # rs) 0 = a"
  by (simp add: script_def)

lemma script_1: "script (a # b # rs) (Suc 0) = b"
  by (simp add: script_def)

lemma plain_fields:
  "message_id (plain_message i b a) = i"
  "author_display_name (plain_message i b a) = ''Ann''"
  "author_id (plain_message i b a) = 1"
  "content (plain_message i b a) = b"
  "reference (plain_message i b a) = None"
  "attachments (plain_message i b a) = a"
  by (simp_all add: plain_message_def)

lemma fresh_tables:
  "discord_to_telegram fresh_state = Map.empty"
  "telegram_to_discord fresh_state = Map.empty"
  "webhook_to_telegram fresh_state = Map.empty"
  "telegram_to_webhook fresh_state = Map.empty"
  "telegram_chat_id fresh_state = - 100"
  "telegram_offset fresh_state = 0"
  by (simp_all add: fresh_state_def)

lemma planned_text_and_image:
  "planned_sends fresh_state (plain_message 7 ''hi'' [image_png]) =
     [SendMessage (- 100) (speech_balloon @ '' <b>Ann</b>: hi'') None,
      SendPhoto (- 100) ''u1'' ''<b>Ann</b>: hi'' None]"
  by (simp add: planned_sends_def plain_message_def reply_target_def fresh_state_def
        attachment_call_def image_png_def startswith_def caption_of_def text_line_def)

lemma planned_two_files:
  "planned_sends fresh_state (plain_message 7 [] [image_png, video_mp4]) =
     [SendPhoto (- 100) ''u1'' [] None, SendVideo (- 100) ''u2'' [] None]"
  by (simp add: planned_sends_def plain_message_def reply_target_def fresh_state_def
        attachment_call_def image_png_def video_mp4_def startswith_def caption_of_def)

text \<open>
  Claim C3, at a message with the text \<open>hi\<close> and one image, both sends answered \<open>ok\<close>:
  the handler sends the text as a message of its own and then the photo with a caption
  that repeats the text, so the text reaches Telegram twice.
\<close>

theorem text_is_sent_beside_the_caption:
  "snd (handle_discord_message (script [Returns (tg_ok 5), Returns (tg_ok 6)]) fresh_state
          (plain_message 7 ''hi'' [image_png])) =
     [TgCall (SendMessage (- 100) (speech_balloon @ '' <b>Ann</b>: hi'') None),
      TgCall (SendPhoto (- 100) ''u1'' ''<b>Ann</b>: hi'' None)]"
proof -
  have "\<forall>i < length (planned_sends fresh_state (plain_message 7 ''hi'' [image_png])).
          script [Returns (tg_ok 5), Returns (tg_ok 6)] i \<noteq> Raises"
    using script_two by (simp add: planned_text_and_image)
  from handle_discord_message_all[OF this] show ?thesis
    by (simp add: planned_text_and_image script_0 script_1 record_correlation_def tg_ok_def)
qed

text \<open>
  Claim C2 as stated fails: the text is sent and answered \<open>ok\<close> with id 5, the image that
  follows is answered without \<open>ok\<close>. The last successful send is the text, yet nothing
  is recorded: the state is returned as it was.
\<close>

theorem earlier_success_is_not_recorded:
  "handle_discord_message (script [Returns (tg_ok 5), Returns tg_fail]) fresh_state
     (plain_message 7 ''hi'' [image_png]) =
     (fresh_state,
      [TgCall (SendMessage (- 100) (speech_balloon @ '' <b>Ann</b>: hi'') None),
       TgCall (SendPhoto (- 100) ''u1'' ''<b>Ann</b>: hi'' None)])"
proof -
  have "\<forall>i < length (planned_sends fresh_state (plain_message 7 ''hi'' [image_png])).
          script [Returns (tg_ok 5), Returns tg_fail] i \<noteq> Raises"
    using script_two by (simp add: planned_text_and_image)
  from handle_discord_message_all[OF this] show ?thesis
    by (simp add: planned_text_and_image script_0 script_1 record_correlation_def tg_fail_def)
qed

text \<open>
  Claim C2, amended. When no send raises, the answer to the last send made (the text when
  there is no attachment, the final attachment otherwise) alone decides the mapping step:
  with no send at all, or with a last answer that is not \<open>ok\<close>, the state is unchanged,
  whatever the earlier answers were; with a last answer that is \<open>ok\<close> and carries id
  \<open>t\<close>, exactly the pair of the message and \<open>t\<close> is written to the two direct tables.
\<close>

theorem last_answer_alone_is_recorded:
  assumes "\<forall>i < length (planned_sends s m). env i \<noteq> Raises"
  shows "(planned_sends s m = [] \<longrightarrow> fst (handle_discord_message env s m) = s) \<and>
         (\<forall>r. planned_sends s m \<noteq> [] \<and> env (length (planned_sends s m) - 1) = Returns r \<and>
               \<not> ok r \<longrightarrow> fst (handle_discord_message env s m) = s) \<and>
         (\<forall>r t. planned_sends s m \<noteq> [] \<and> env (length (planned_sends s m) - 1) = Returns r \<and>
               ok r \<and> result_message_id r = Some t \<longrightarrow>
               fst (handle_discord_message env s m) =
                 s\<lparr>discord_to_telegram := (discord_to_telegram s)
                      (str_int (message_id m) \<mapsto> (t, author_display_name m, author_id m)),
                   telegram_to_discord := (telegram_to_discord s)
                      (t \<mapsto> (str_int (message_id m), author_display_name m, author_id m))\<rparr>)"
  by (auto simp: handle_discord_message_all[OF assms] record_correlation_def)

theorem last_answer_alone_is_recorded_witness:
  "fst (handle_discord_message (script [Returns (tg_ok 5), Returns (tg_ok 6)]) fresh_state
          (plain_message 7 ''hi'' [image_png])) =
     fresh_state\<lparr>discord_to_telegram := [''7'' \<mapsto> (6, ''Ann'', 1)],
                 telegram_to_discord := [6 \<mapsto> (''7'', ''Ann'', 1)]\<rparr> \<and>
   fst (handle_discord_message (script [Returns (tg_ok 5), Returns tg_fail]) fresh_state
          (plain_message 7 ''hi'' [image_png])) = fresh_state \<and>
   fst (handle_discord_message (script []) fresh_state (plain_message 7 [] [])) = fresh_state"
proof (intro conjI)
  have h: "\<forall>i < length (planned_sends fresh_state (plain_message 7 ''hi'' [image_png])).
          script [Returns (tg_ok 5), Returns (tg_ok 6)] i \<noteq> Raises"
    using script_two by (simp add: planned_text_and_image)
  have e: "script [Returns (tg_ok 5), Returns (tg_ok 6)]
             (length (planned_sends fresh_state (plain_message 7 ''hi'' [image_png])) - 1) =
           Returns (tg_ok 6)"
    by (simp add: planned_text_and_image script_1)
  show "fst (handle_discord_message (script [Returns (tg_ok 5), Returns (tg_ok 6)]) fresh_state
          (plain_message 7 ''hi'' [image_png])) =
     fresh_state\<lparr>discord_to_telegram := [''7'' \<mapsto> (6, ''Ann'', 1)],
                 telegram_to_discord := [6 \<mapsto> (''7'', ''Ann'', 1)]\<rparr>"
    using last_answer_alone_is_recorded [OF h] e
    by (simp add: planned_text_and_image tg_ok_def str_int_7 plain_fields fresh_tables)
  have h2: "\<forall>i < length (planned_sends fresh_state (plain_message 7 ''hi'' [image_png])).
          script [Returns (tg_ok 5), Returns tg_fail] i \<noteq> Raises"
    using script_two by (simp add: planned_text_and_image)
  have e2: "script [Returns (tg_ok 5), Returns tg_fail]
             (length (planned_sends fresh_state (plain_message 7 ''hi'' [image_png])) - 1) =
           Returns tg_fail"
    by (simp add: planned_text_and_image script_1)
  show "fst (handle_discord_message (script [Returns (tg_ok 5), Returns tg_fail]) fresh_state
          (plain_message 7 ''hi'' [image_png])) = fresh_state"
    using last_answer_alone_is_recorded [OF h2] e2
    by (simp add: planned_text_and_image tg_fail_def)
  have p3: "planned_sends fresh_state (plain_message 7 [] []) = []"
    by (simp add: planned_sends_def plain_fields)
  then have h3: "\<forall>i < length (planned_sends fresh_state (plain_message 7 [] [])).
          script [] i \<noteq> Raises"
    by simp
  show "fst (handle_discord_message (script []) fresh_state (plain_message 7 [] [])) = fresh_state"
    using last_answer_alone_is_recorded [OF h3] p3 by simp
qed

section \<open>A send that fails\<close>

text \<open>
  Claim C6 as stated fails, for either kind of failure. An attachment send that is answered
  without \<open>ok\<close> is followed by the next attachment, but the trace holds no log line for
  it. An attachment send that raises is logged, and the attachment after it is never sent.
\<close>

theorem failed_send_counterexample:
  "handle_discord_message (script [Returns tg_fail, Returns (tg_ok 5)]) fresh_state
     (plain_message 7 [] [image_png, video_mp4]) =
     (paired_state,
      [TgCall (SendPhoto (- 100) ''u1'' [] None), TgCall (SendVideo (- 100) ''u2'' [] None)]) \<and>
   handle_discord_message (script [Raises, Returns (tg_ok 5)]) fresh_state
     (plain_message 7 [] [image_png, video_mp4]) =
     (fresh_state,
      [TgCall (SendPhoto (- 100) ''u1'' [] None),
       Logged Error ''Error processing Discord message''])"
proof
  have "\<forall>i < length (planned_sends fresh_state (plain_message 7 [] [image_png, video_mp4])).
          script [Returns tg_fail, Returns (tg_ok 5)] i \<noteq> Raises"
    using script_two by (simp add: planned_two_files)
  from handle_discord_message_all[OF this]
  show "handle_discord_message (script [Returns tg_fail, Returns (tg_ok 5)]) fresh_state
     (plain_message 7 [] [image_png, video_mp4]) =
     (paired_state,
      [TgCall (SendPhoto (- 100) ''u1'' [] None), TgCall (SendVideo (- 100) ''u2'' [] None)])"
    by (simp add: planned_two_files script_0 script_1 record_correlation_def tg_ok_def tg_fail_def
          str_int_7 plain_fields fresh_tables paired_state_def)
  have "discord_sends (script [Raises, Returns (tg_ok 5)]) fresh_state
          (plain_message 7 [] [image_png, video_mp4]) =
        (Raises, take (Suc 0) (planned_sends fresh_state (plain_message 7 [] [image_png, video_mp4])))"
    by (rule discord_sends_raise) (simp_all add: planned_two_files script_0 script_1)
  then show "handle_discord_message (script [Raises, Returns (tg_ok 5)]) fresh_state
     (plain_message 7 [] [image_png, video_mp4]) =
     (fresh_state,
      [TgCall (SendPhoto (- 100) ''u1'' [] None),
       Logged Error ''Error processing Discord message''])"
    by (simp add: handle_discord_message_def planned_two_files)
qed

text \<open>
  Claim C6, amended. When every send is answered, with or without \<open>ok\<close> (a final \<open>ok\<close>
  answer carrying its message id), the handler makes each planned send exactly once, in
  order, and logs nothing. When send \<open>j\<close> is the first to raise, the handler makes the
  sends up to \<open>j\<close>, logs one error, makes no further send, and returns the state as it
  was.
\<close>

theorem failed_send_is_skipped_or_ends_the_run:
  "((\<forall>i < length (planned_sends s m). \<exists>r. env i = Returns r) \<and>
    (\<forall>r. env (length (planned_sends s m) - 1) = Returns r \<and> ok r \<longrightarrow>
          result_message_id r \<noteq> None) \<longrightarrow>
      snd (handle_discord_message env s m) = map TgCall (planned_sends s m)) \<and>
   (\<forall>j. j < length (planned_sends s m) \<and> env j = Raises \<and> (\<forall>i < j. env i \<noteq> Raises) \<longrightarrow>
      handle_discord_message env s m =
        (s, map TgCall (take (Suc j) (planned_sends s m)) @
            [Logged Error ''Error processing Discord message'']))"
proof (intro conjI impI allI)
  assume a: "(\<forall>i < length (planned_sends s m). \<exists>r. env i = Returns r) \<and>
    (\<forall>r. env (length (planned_sends s m) - 1) = Returns r \<and> ok r \<longrightarrow>
          result_message_id r \<noteq> None)"
  then have nr: "\<forall>i < length (planned_sends s m). env i \<noteq> Raises"
    by (metis outcome.distinct(1))
  show "snd (handle_discord_message env s m) = map TgCall (planned_sends s m)"
  proof (cases "planned_sends s m = []")
    case True
    then show ?thesis
      by (simp add: handle_discord_message_all[OF nr] record_correlation_def)
  next
    case False
    then have "length (planned_sends s m) - 1 < length (planned_sends s m)" by simp
    with a obtain r where r: "env (length (planned_sends s m) - 1) = Returns r" by blast
    with a have "ok r \<longrightarrow> result_message_id r \<noteq> None" by blast
    with r False show ?thesis
      by (auto simp: handle_discord_message_all[OF nr] record_correlation_def)
  qed
next
  fix j
  assume "j < length (planned_sends s m) \<and> env j = Raises \<and> (\<forall>i < j. env i \<noteq> Raises)"
  then have "discord_sends env s m = (Raises, take (Suc j) (planned_sends s m))"
    using discord_sends_raise by blast
  then show "handle_discord_message env s m =
        (s, map TgCall (take (Suc j) (planned_sends s m)) @
            [Logged Error ''Error processing Discord message''])"
    by (simp add: handle_discord_message_def)
qed

theorem failed_send_is_skipped_or_ends_the_run_witness:
  "snd (handle_discord_message (script [Returns tg_fail, Returns tg_fail]) fresh_state
          (plain_message 7 [] [image_png, video_mp4])) =
     [TgCall (SendPhoto (- 100) ''u1'' [] None), TgCall (SendVideo (- 100) ''u2'' [] None)] \<and>
   handle_discord_message (script [Returns tg_fail, Raises]) fresh_state
     (plain_message 7 [] [image_png, video_mp4, untyped_file]) =
     (fresh_state,
      [TgCall (SendPhoto (- 100) ''u1'' [] None), TgCall (SendVideo (- 100) ''u2'' [] None),
       Logged Error ''Error processing Discord message''])"
proof
  note t = failed_send_is_skipped_or_ends_the_run
    [of fresh_state "plain_message 7 [] [image_png, video_mp4]"
        "script [Returns tg_fail, Returns tg_fail]"]
  have "\<forall>i < 2. \<exists>r. script [Returns tg_fail, Returns tg_fail] i = Returns r"
    by (auto simp: script_0 script_1 less_Suc_eq numeral_2_eq_2)
  moreover have "\<forall>r. script [Returns tg_fail, Returns tg_fail] (2 - 1) = Returns r \<and> ok r \<longrightarrow>
          result_message_id r \<noteq> None"
    by (simp add: script_0 script_1 tg_fail_def)
  ultimately show "snd (handle_discord_message (script [Returns tg_fail, Returns tg_fail]) fresh_state
          (plain_message 7 [] [image_png, video_mp4])) =
     [TgCall (SendPhoto (- 100) ''u1'' [] None), TgCall (SendVideo (- 100) ''u2'' [] None)]"
    using t by (simp add: planned_two_files)
next
  note t = failed_send_is_skipped_or_ends_the_run
    [of fresh_state "plain_message 7 [] [image_png, video_mp4, untyped_file]"
        "script [Returns tg_fail, Raises]"]
  have p: "planned_sends fresh_state (plain_message 7 [] [image_png, video_mp4, untyped_file]) =
     [SendPhoto (- 100) ''u1'' [] None, SendVideo (- 100) ''u2'' [] None,
      SendDocument (- 100) ''u3'' [] None]"
    by (simp add: planned_sends_def plain_message_def reply_target_def fresh_state_def
        attachment_call_def image_png_def video_mp4_def untyped_file_def startswith_def
        caption_of_def)
  have "(1::nat) < length (planned_sends fresh_state
           (plain_message 7 [] [image_png, video_mp4, untyped_file])) \<and>
        script [Returns tg_fail, Raises] 1 = Raises \<and>
        (\<forall>i < 1. script [Returns tg_fail, Raises] i \<noteq> Raises)"
    by (simp add: p script_0 script_1)
  with t have "handle_discord_message (script [Returns tg_fail, Raises]) fresh_state
     (plain_message 7 [] [image_png, video_mp4, untyped_file]) =
     (fresh_state,
      map TgCall (take (Suc 1) (planned_sends fresh_state
           (plain_message 7 [] [image_png, video_mp4, untyped_file]))) @
      [Logged Error ''Error processing Discord message''])"
    by blast
  then show "handle_discord_message (script [Returns tg_fail, Raises]) fresh_state
     (plain_message 7 [] [image_png, video_mp4, untyped_file]) =
     (fresh_state,
      [TgCall (SendPhoto (- 100) ''u1'' [] None), TgCall (SendVideo (- 100) ''u2'' [] None),
       Logged Error ''Error processing Discord message''])"
    by (simp add: p)
qed

section \<open>What the Telegram handlers change\<close>

lemma record_relay_frame:
  "telegram_offset (record_relay s dm mid) = telegram_offset s"
  "discord_to_telegram (record_relay s dm mid) = discord_to_telegram s"
  "telegram_to_discord (record_relay s dm mid) = telegram_to_discord s"
  by (simp_all add: record_relay_def split: option.splits)

lemma record_relay_None: "record_relay s None mid = s"
  by (simp add: record_relay_def)


lemma send_webhook_some:
  "send_webhook_message env un av b fp = (Some w, es) \<Longrightarrow> post_result env = Returns (Some w)"
  by (auto simp: send_webhook_message_def Let_def split: outcome.splits)

lemma relay_file_some:
  assumes "relay_file env un av b fid = (Returns (Some w), es)"
  shows "post_result env = Returns (Some w)"
proof -
  obtain fp e1 where d: "download_telegram_file env fid = (fp, e1)" by (cases "download_telegram_file env fid")
  obtain dm e2 where p: "send_webhook_message env un av b fp = (dm, e2)"
    by (cases "send_webhook_message env un av b fp")
  obtain c e3 where r: "remove_temp env fp = (c, e3)" by (cases "remove_temp env fp")
  from assms d p r have "dm = Some w"
    by (cases c) (simp_all add: relay_file_def)
  with p show ?thesis using send_webhook_some by blast
qed

lemma relay_sticker_some:
  assumes "relay_sticker env un av rt st = (Returns (Some w), es)"
  shows "post_result env = Returns (Some w)"
proof -
  let ?animated = "is_animated st \<or> is_video st"
  let ?dl = "if ?animated
            then (case thumbnail st of
                    None \<Rightarrow> (None, [])
                  | Some t \<Rightarrow> download_telegram_file env t)
            else download_telegram_file env (sticker_file_id st)"
  obtain fp e1 where d: "?dl = (fp, e1)" by (cases ?dl)
  let ?first = "if ?animated \<and> \<not> truthy_str fp
                 then send_webhook_message env un av
                        (rt @ theatre_masks @ '' '' @
                         (case emoji st of None \<Rightarrow> camera | Some e \<Rightarrow> e)) None
                 else (None, [])"
  obtain msg1 e2 where f: "?first = (msg1, e2)" by (cases ?first)
  show ?thesis
  proof (cases "truthy_str fp")
    case True
    obtain msg2 e3 where p: "send_webhook_message env un av rt fp = (msg2, e3)"
      by (cases "send_webhook_message env un av rt fp")
    obtain c e4 where r: "remove_temp env fp = (c, e4)" by (cases "remove_temp env fp")
    from assms d f True p r have "msg2 = Some w"
      by (cases c) (simp_all add: relay_sticker_def Let_def)
    with p show ?thesis using send_webhook_some by blast
  next
    case False
    from assms d f False have m: "msg1 = Some w"
      by (simp add: relay_sticker_def Let_def)
    with f show ?thesis
      using send_webhook_some by (auto split: if_splits)
  qed
qed

lemma relay_content_some:
  assumes "relay_content env un av rt m = (Returns (Some w), es)"
  shows "post_result env = Returns (Some w)"
  using assms
  by (auto simp: relay_content_def split: if_splits option.splits prod.splits
           dest: send_webhook_some relay_file_some relay_sticker_some)

lemma telegram_message_state:
  assumes "deleted_message u = None"
  shows "fst (handle_telegram_message env s u) = s \<or>
         (\<exists>w mid. fst (handle_telegram_message env s u) = record_relay s (Some w) mid \<and>
                  post_result env = Returns (Some w))"
proof (cases "message u")
  case None
  with assms show ?thesis by (simp add: handle_telegram_message_def)
next
  case (Some m)
  show ?thesis
  proof (cases "chat_id m = Some (telegram_chat_id s)")
    case False
    with assms Some show ?thesis by (simp add: handle_telegram_message_def)
  next
    case True
    let ?uid = "case from_user m of None \<Rightarrow> None | Some usr \<Rightarrow> user_id usr"
    obtain avatar e0 where a: "get_telegram_user_avatar env ?uid = (avatar, e0)"
      by (cases "get_telegram_user_avatar env ?uid")
    obtain res e1 where r:
      "relay_content env (display_name_of (from_user m)) avatar (reply_prefix s m) m = (res, e1)"
      by (cases "relay_content env (display_name_of (from_user m)) avatar (reply_prefix s m) m")
    show ?thesis
    proof (cases res)
      case Raises
      with assms Some True a r show ?thesis by (simp add: handle_telegram_message_def)
    next
      case (Returns dm)
      with assms Some True a r
      have st: "fst (handle_telegram_message env s u) = record_relay s dm (tg_message_id m)"
        by (simp add: handle_telegram_message_def)
      show ?thesis
      proof (cases dm)
        case None
        with st show ?thesis by (simp add: record_relay_None)
      next
        case (Some w)
        with r Returns have "post_result env = Returns (Some w)"
          using relay_content_some by blast
        with st Some show ?thesis by blast
      qed
    qed
  qed
qed







section \<open>Deletion of a correlated pair\<close>

lemma telegram_delete_dispatch:
  "deleted_message u = Some d \<Longrightarrow>
   handle_telegram_message env s u = handle_telegram_message_delete env s u"
  by (simp add: handle_telegram_message_def)

lemma telegram_delete_direct:
  assumes "telegram_to_discord s t = Some (d, n, a)" "t \<noteq> 0" "deleted_message u = Some (Some t)"
  shows "fst (handle_telegram_message_delete env s u) =
           s\<lparr>telegram_to_discord := (telegram_to_discord s)(t := None),
             discord_to_telegram := (discord_to_telegram s)(d := None)\<rparr>"
  using assms by (simp add: handle_telegram_message_delete_def)

lemma telegram_delete_webhook:
  assumes "telegram_to_discord s t = None" "telegram_to_webhook s t = Some w" "t \<noteq> 0"
    "deleted_message u = Some (Some t)"
  shows "fst (handle_telegram_message_delete env s u) =
           s\<lparr>telegram_to_webhook := (telegram_to_webhook s)(t := None),
             webhook_to_telegram := (webhook_to_telegram s)(w := None)\<rparr>"
  using assms by (simp add: handle_telegram_message_delete_def)

lemma relay_gives_paired_state:
  "fst (handle_discord_message (script [Returns (tg_ok 5)]) fresh_state (plain_message 7 ''hi'' []))
     = paired_state"
proof -
  have p: "planned_sends fresh_state (plain_message 7 ''hi'' []) =
        [SendMessage (- 100) (text_line (plain_message 7 ''hi'' [])) None]"
    by (simp add: planned_sends_def plain_fields reply_target_def fresh_tables)
  then have "\<forall>i < length (planned_sends fresh_state (plain_message 7 ''hi'' [])).
          script [Returns (tg_ok 5)] i \<noteq> Raises"
    by (simp add: script_0)
  from handle_discord_message_all[OF this] show ?thesis
    by (simp add: p script_0 record_correlation_def tg_ok_def str_int_7 plain_fields
          fresh_tables paired_state_def)
qed

text \<open>
  Claim C1 as stated fails on the Discord half: message 7 is relayed as Telegram message 5
  and then deleted on Discord; the Telegram delete the handler issues is answered without
  \<open>ok\<close>, and both halves of the pair are still in the tables.
\<close>

theorem failed_telegram_delete_keeps_the_pair:
  "fst (handle_discord_message (script [Returns (tg_ok 5)]) fresh_state (plain_message 7 ''hi'' []))
     = paired_state \<and>
   fst (handle_discord_message_delete (Returns tg_fail) paired_state (plain_message 7 ''hi'' []))
     = paired_state \<and>
   discord_to_telegram paired_state ''7'' = Some (5, ''Ann'', 1) \<and>
   telegram_to_discord paired_state 5 = Some (''7'', ''Ann'', 1)"
  by (simp add: relay_gives_paired_state handle_discord_message_delete_def plain_fields
        str_int_7 tg_fail_def paired_state_def Let_def)

text \<open>
  Claim C1, amended. For a pair in the two direct tables, a delete event on the Discord
  half removes both halves when the Telegram delete it issues answers \<open>ok\<close>, and a delete
  update on the Telegram half (a non-zero id) removes both halves whatever the outside
  does; for a pair in the two webhook tables, a delete update on the Telegram half removes
  both halves. A lookup of either half right afterwards gives \<open>None\<close>.
\<close>

theorem delete_removes_both_halves:
  "(\<forall>t n a (r::tg_response).
      discord_to_telegram s (str_int (message_id m)) = Some (t, n, a) \<and> ok r \<longrightarrow>
      discord_to_telegram (fst (handle_discord_message_delete (Returns r) s m))
        (str_int (message_id m)) = None \<and>
      telegram_to_discord (fst (handle_discord_message_delete (Returns r) s m)) t = None) \<and>
   (\<forall>t d n a. telegram_to_discord s t = Some (d, n, a) \<and> t \<noteq> 0 \<and>
      deleted_message u = Some (Some t) \<longrightarrow>
      telegram_to_discord (fst (handle_telegram_message env s u)) t = None \<and>
      discord_to_telegram (fst (handle_telegram_message env s u)) d = None) \<and>
   (\<forall>t w. telegram_to_discord s t = None \<and> telegram_to_webhook s t = Some w \<and> t \<noteq> 0 \<and>
      deleted_message u = Some (Some t) \<longrightarrow>
      telegram_to_webhook (fst (handle_telegram_message env s u)) t = None \<and>
      webhook_to_telegram (fst (handle_telegram_message env s u)) w = None)"
proof (intro conjI allI impI)
  fix t n a and r :: tg_response
  assume "discord_to_telegram s (str_int (message_id m)) = Some (t, n, a) \<and> ok r"
  then show "discord_to_telegram (fst (handle_discord_message_delete (Returns r) s m))
        (str_int (message_id m)) = None"
    and "telegram_to_discord (fst (handle_discord_message_delete (Returns r) s m)) t = None"
    by (simp_all add: handle_discord_message_delete_def)
next
  fix t d n a
  assume a: "telegram_to_discord s t = Some (d, n, a) \<and> t \<noteq> 0 \<and>
      deleted_message u = Some (Some t)"
  then have "fst (handle_telegram_message env s u) =
           s\<lparr>telegram_to_discord := (telegram_to_discord s)(t := None),
             discord_to_telegram := (discord_to_telegram s)(d := None)\<rparr>"
    using telegram_delete_direct[of s t d n a u env] by (simp add: telegram_delete_dispatch)
  then show "telegram_to_discord (fst (handle_telegram_message env s u)) t = None"
    and "discord_to_telegram (fst (handle_telegram_message env s u)) d = None"
    by simp_all
next
  fix t w
  assume a: "telegram_to_discord s t = None \<and> telegram_to_webhook s t = Some w \<and> t \<noteq> 0 \<and>
      deleted_message u = Some (Some t)"
  then have "fst (handle_telegram_message env s u) =
           s\<lparr>telegram_to_webhook := (telegram_to_webhook s)(t := None),
             webhook_to_telegram := (webhook_to_telegram s)(w := None)\<rparr>"
    using telegram_delete_webhook[of s t w u env] by (simp add: telegram_delete_dispatch)
  then show "telegram_to_webhook (fst (handle_telegram_message env s u)) t = None"
    and "webhook_to_telegram (fst (handle_telegram_message env s u)) w = None"
    by simp_all
qed

theorem delete_removes_both_halves_witness:
  "discord_to_telegram
     (fst (handle_discord_message_delete (Returns (tg_ok 5)) paired_state (plain_message 7 ''hi'' [])))
     ''7'' = None \<and>
   telegram_to_discord
     (fst (handle_discord_message_delete (Returns (tg_ok 5)) paired_state (plain_message 7 ''hi'' [])))
     5 = None \<and>
   telegram_to_discord (fst (handle_telegram_message quiet_env paired_state (deletion_update 1 5))) 5
     = None \<and>
   discord_to_telegram (fst (handle_telegram_message quiet_env paired_state (deletion_update 1 5))) ''7''
     = None \<and>
   telegram_to_webhook (fst (handle_telegram_message quiet_env relayed_state (deletion_update 2 9))) 9
     = None \<and>
   webhook_to_telegram (fst (handle_telegram_message quiet_env relayed_state (deletion_update 2 9))) ''w1''
     = None"
proof -
  note a = delete_removes_both_halves
    [of paired_state "plain_message 7 ''hi'' []" "deletion_update 1 5" quiet_env]
  note b = delete_removes_both_halves
    [of relayed_state "plain_message 7 ''hi'' []" "deletion_update 2 9" quiet_env]
  have 1: "discord_to_telegram paired_state (str_int (message_id (plain_message 7 ''hi'' []))) =
             Some (5, ''Ann'', 1) \<and> ok (tg_ok 5)"
    by (simp add: plain_fields str_int_7 paired_state_def tg_ok_def)
  have 2: "telegram_to_discord paired_state 5 = Some (''7'', ''Ann'', 1) \<and> (5::int) \<noteq> 0 \<and>
           deleted_message (deletion_update 1 5) = Some (Some 5)"
    by (simp add: paired_state_def deletion_update_def)
  have 3: "telegram_to_discord relayed_state 9 = None \<and>
           telegram_to_webhook relayed_state 9 = Some ''w1'' \<and> (9::int) \<noteq> 0 \<and>
           deleted_message (deletion_update 2 9) = Some (Some 9)"
    by (simp add: relayed_state_def deletion_update_def fresh_tables)
  from a 1 have "discord_to_telegram
     (fst (handle_discord_message_delete (Returns (tg_ok 5)) paired_state (plain_message 7 ''hi'' [])))
     (str_int (message_id (plain_message 7 ''hi'' []))) = None \<and>
   telegram_to_discord
     (fst (handle_discord_message_delete (Returns (tg_ok 5)) paired_state (plain_message 7 ''hi'' [])))
     5 = None"
    by blast
  moreover from a 2 have "telegram_to_discord
       (fst (handle_telegram_message quiet_env paired_state (deletion_update 1 5))) 5 = None \<and>
     discord_to_telegram
       (fst (handle_telegram_message quiet_env paired_state (deletion_update 1 5))) ''7'' = None"
    by blast
  moreover from b 3 have "telegram_to_webhook
       (fst (handle_telegram_message quiet_env relayed_state (deletion_update 2 9))) 9 = None \<and>
     webhook_to_telegram
       (fst (handle_telegram_message quiet_env relayed_state (deletion_update 2 9))) ''w1'' = None"
    by blast
  ultimately show ?thesis
    by (simp add: plain_fields str_int_7)
qed

section \<open>One correlation per message\<close>

lemma correlated_once_tables:
  "discord_to_telegram s' = discord_to_telegram s \<Longrightarrow>
   telegram_to_discord s' = telegram_to_discord s \<Longrightarrow>
   correlated_once s' = correlated_once s"
  by (simp add: correlated_once_def)

lemma correlated_once_fwd:
  "correlated_once s \<Longrightarrow> discord_to_telegram s d = Some (t, n, a) \<Longrightarrow>
   \<exists>n' a'. telegram_to_discord s t = Some (d, n', a')"
  unfolding correlated_once_def by blast

lemma correlated_once_bwd:
  "correlated_once s \<Longrightarrow> telegram_to_discord s t = Some (d, n, a) \<Longrightarrow>
   \<exists>n' a'. discord_to_telegram s d = Some (t, n', a')"
  unfolding correlated_once_def by blast

lemma correlated_once_remove:
  assumes "correlated_once s" "discord_to_telegram s d = Some (t, n, a)"
    and "discord_to_telegram s' = (discord_to_telegram s)(d := None)"
    and "telegram_to_discord s' = (telegram_to_discord s)(t := None)"
  shows "correlated_once s'"
proof -
  from assms(1,2) obtain n' a' where mir: "telegram_to_discord s t = Some (d, n', a')"
    using correlated_once_fwd by blast
  have fwd: "\<exists>n' a'. telegram_to_discord s' t1 = Some (d1, n', a')"
    if h: "discord_to_telegram s' d1 = Some (t1, n1, a1)" for d1 t1 n1 a1
  proof -
    from h assms(3) have ne: "d1 \<noteq> d" and old: "discord_to_telegram s d1 = Some (t1, n1, a1)"
      by (auto split: if_splits)
    from old assms(1) obtain n2 a2 where m: "telegram_to_discord s t1 = Some (d1, n2, a2)"
      using correlated_once_fwd by blast
    with mir ne have "t1 \<noteq> t" by auto
    with m assms(4) show ?thesis by simp
  qed
  have bwd: "\<exists>n' a'. discord_to_telegram s' d1 = Some (t1, n', a')"
    if h: "telegram_to_discord s' t1 = Some (d1, n1, a1)" for d1 t1 n1 a1
  proof -
    from h assms(4) have ne: "t1 \<noteq> t" and old: "telegram_to_discord s t1 = Some (d1, n1, a1)"
      by (auto split: if_splits)
    from old assms(1) obtain n2 a2 where m: "discord_to_telegram s d1 = Some (t1, n2, a2)"
      using correlated_once_bwd by blast
    with assms(2) ne have "d1 \<noteq> d" by auto
    with m assms(3) show ?thesis by simp
  qed
  show ?thesis
    unfolding correlated_once_def using fwd bwd by blast
qed

lemma correlated_once_insert:
  assumes "correlated_once s" "discord_to_telegram s d = None" "telegram_to_discord s t = None"
    and "discord_to_telegram s' = (discord_to_telegram s)(d \<mapsto> (t, n, a))"
    and "telegram_to_discord s' = (telegram_to_discord s)(t \<mapsto> (d, n, a))"
  shows "correlated_once s'"
proof -
  have fwd: "\<exists>n' a'. telegram_to_discord s' t1 = Some (d1, n', a')"
    if h: "discord_to_telegram s' d1 = Some (t1, n1, a1)" for d1 t1 n1 a1
  proof (cases "d1 = d")
    case True
    with h assms(4) have "t1 = t" by simp
    with True assms(5) show ?thesis by simp
  next
    case False
    with h assms(4) have old: "discord_to_telegram s d1 = Some (t1, n1, a1)" by simp
    with assms(1) obtain n2 a2 where m: "telegram_to_discord s t1 = Some (d1, n2, a2)"
      using correlated_once_fwd by blast
    with assms(3) have "t1 \<noteq> t" by auto
    with m assms(5) show ?thesis by simp
  qed
  have bwd: "\<exists>n' a'. discord_to_telegram s' d1 = Some (t1, n', a')"
    if h: "telegram_to_discord s' t1 = Some (d1, n1, a1)" for d1 t1 n1 a1
  proof (cases "t1 = t")
    case True
    with h assms(5) have "d1 = d" by simp
    with True assms(4) show ?thesis by simp
  next
    case False
    with h assms(5) have old: "telegram_to_discord s t1 = Some (d1, n1, a1)" by simp
    with assms(1) obtain n2 a2 where m: "discord_to_telegram s d1 = Some (t1, n2, a2)"
      using correlated_once_bwd by blast
    with assms(2) have "d1 \<noteq> d" by auto
    with m assms(4) show ?thesis by simp
  qed
  show ?thesis
    unfolding correlated_once_def using fwd bwd by blast
qed

lemma correlated_once_unique:
  assumes "correlated_once s" "discord_to_telegram s d = Some (t, n, a)"
  shows "(\<forall>d' n' a'. discord_to_telegram s d' = Some (t, n', a') \<longrightarrow> d' = d) \<and>
         (\<forall>t' n' a'. telegram_to_discord s t' = Some (d, n', a') \<longrightarrow> t' = t)"
proof (intro conjI allI impI)
  fix d' n' a'
  assume "discord_to_telegram s d' = Some (t, n', a')"
  with assms(1) obtain n1 a1 where 1: "telegram_to_discord s t = Some (d', n1, a1)"
    using correlated_once_fwd by blast
  from assms obtain n2 a2 where "telegram_to_discord s t = Some (d, n2, a2)"
    using correlated_once_fwd by blast
  with 1 show "d' = d" by simp
next
  fix t' n' a'
  assume "telegram_to_discord s t' = Some (d, n', a')"
  with assms(1) obtain n1 a1 where "discord_to_telegram s d = Some (t', n1, a1)"
    using correlated_once_bwd by blast
  with assms(2) show "t' = t" by simp
qed

lemma discord_delete_keeps_correlated_once:
  assumes "correlated_once s"
  shows "correlated_once (fst (handle_discord_message_delete env s m))"
proof (cases "discord_to_telegram s (str_int (message_id m))")
  case None
  with assms show ?thesis by (simp add: handle_discord_message_delete_def)
next
  case (Some v)
  obtain t n a where v: "v = (t, n, a)" by (cases v)
  show ?thesis
  proof (cases env)
    case Raises
    with assms Some v show ?thesis by (simp add: handle_discord_message_delete_def)
  next
    case (Returns r)
    show ?thesis
    proof (cases "ok r")
      case False
      with assms Some v Returns show ?thesis by (simp add: handle_discord_message_delete_def)
    next
      case True
      with Some v Returns have st: "fst (handle_discord_message_delete env s m) =
          s\<lparr>discord_to_telegram := (discord_to_telegram s)(str_int (message_id m) := None),
            telegram_to_discord := (telegram_to_discord s)(t := None)\<rparr>"
        by (simp add: handle_discord_message_delete_def)
      from Some v have "discord_to_telegram s (str_int (message_id m)) = Some (t, n, a)" by simp
      with assms show ?thesis
        by (rule correlated_once_remove) (simp_all add: st)
    qed
  qed
qed

lemma telegram_delete_keeps_correlated_once:
  assumes "correlated_once s"
  shows "correlated_once (fst (handle_telegram_message_delete env s u))"
proof (cases "\<exists>t. deleted_message u = Some (Some t) \<and> t \<noteq> 0")
  case False
  then have "fst (handle_telegram_message_delete env s u) = s"
    by (auto simp: handle_telegram_message_delete_def split: option.splits)
  with assms show ?thesis by simp
next
  case True
  then obtain t where t: "deleted_message u = Some (Some t)" "t \<noteq> 0" by blast
  show ?thesis
  proof (cases "telegram_to_discord s t")
    case None
    with t have "discord_to_telegram (fst (handle_telegram_message_delete env s u)) =
          discord_to_telegram s"
      and "telegram_to_discord (fst (handle_telegram_message_delete env s u)) =
          telegram_to_discord s"
      by (simp_all add: handle_telegram_message_delete_def split: option.splits)
    with assms show ?thesis using correlated_once_tables by blast
  next
    case (Some v)
    obtain d n a where v: "v = (d, n, a)" by (cases v)
    with Some have td: "telegram_to_discord s t = Some (d, n, a)" by simp
    with assms obtain n' a' where dt: "discord_to_telegram s d = Some (t, n', a')"
      using correlated_once_bwd by blast
    from telegram_delete_direct[OF td t(2) t(1), of env]
    have st: "fst (handle_telegram_message_delete env s u) =
           s\<lparr>telegram_to_discord := (telegram_to_discord s)(t := None),
             discord_to_telegram := (discord_to_telegram s)(d := None)\<rparr>" .
    from assms dt show ?thesis
      by (rule correlated_once_remove) (simp_all add: st)
  qed
qed

lemma telegram_message_keeps_correlated_once:
  assumes "correlated_once s"
  shows "correlated_once (fst (handle_telegram_message env s u))"
proof (cases "deleted_message u")
  case None
  from telegram_message_state[OF this, of env s]
  have "discord_to_telegram (fst (handle_telegram_message env s u)) = discord_to_telegram s"
    and "telegram_to_discord (fst (handle_telegram_message env s u)) = telegram_to_discord s"
    by (auto simp: record_relay_frame)
  with assms show ?thesis using correlated_once_tables by blast
next
  case (Some d)
  with assms show ?thesis
    by (simp add: telegram_delete_dispatch telegram_delete_keeps_correlated_once)
qed

lemma send_attachments_final:
  "send_attachments env k mk as prev = (Returns (Some r), cs) \<Longrightarrow>
   prev = Some r \<or> (\<exists>j. env j = Returns r)"
proof (induction as arbitrary: k prev cs)
  case Nil
  then show ?case by simp
next
  case (Cons a as)
  show ?case
  proof (cases "env k")
    case Raises
    with Cons.prems show ?thesis by simp
  next
    case (Returns r0)
    obtain res cs' where rest: "send_attachments env (Suc k) mk as (Some r0) = (res, cs')"
      by (cases "send_attachments env (Suc k) mk as (Some r0)")
    with Cons.prems Returns have "res = Returns (Some r)" by simp
    with rest Cons.IH[of "Suc k" "Some r0" cs'] have "Some r0 = Some r \<or> (\<exists>j. env j = Returns r)"
      by simp
    with Returns show ?thesis by auto
  qed
qed

lemma discord_sends_final:
  assumes "discord_sends env s m = (Returns (Some r), cs)"
  shows "\<exists>j. env j = Returns r"
proof (cases "content m = []")
  case True
  with assms have "send_attachments env 0
      (attachment_call (telegram_chat_id s) (caption_of m) (reply_target s m))
      (attachments m) None = (Returns (Some r), cs)"
    by (simp add: discord_sends_def Let_def)
  from send_attachments_final[OF this] show ?thesis by simp
next
  case False
  show ?thesis
  proof (cases "env 0")
    case Raises
    with assms False show ?thesis by (simp add: discord_sends_def Let_def)
  next
    case (Returns r0)
    obtain res cs' where rest: "send_attachments env 1
      (attachment_call (telegram_chat_id s) (caption_of m) (reply_target s m))
      (attachments m) (Some r0) = (res, cs')"
      by (cases "send_attachments env 1
      (attachment_call (telegram_chat_id s) (caption_of m) (reply_target s m))
      (attachments m) (Some r0)")
    with assms False Returns have "res = Returns (Some r)"
      by (simp add: discord_sends_def Let_def)
    with rest send_attachments_final have "Some r0 = Some r \<or> (\<exists>j. env j = Returns r)"
      by blast
    with Returns show ?thesis by auto
  qed
qed

lemma discord_message_state:
  "fst (handle_discord_message env s m) = s \<or>
   (\<exists>j r t. env j = Returns r \<and> ok r \<and> result_message_id r = Some t \<and>
      fst (handle_discord_message env s m) =
        s\<lparr>discord_to_telegram := (discord_to_telegram s)
             (str_int (message_id m) \<mapsto> (t, author_display_name m, author_id m)),
          telegram_to_discord := (telegram_to_discord s)
             (t \<mapsto> (str_int (message_id m), author_display_name m, author_id m))\<rparr>)"
proof -
  obtain res cs where d: "discord_sends env s m = (res, cs)" by (cases "discord_sends env s m")
  show ?thesis
  proof (cases res)
    case Raises
    with d show ?thesis by (simp add: handle_discord_message_def)
  next
    case (Returns tm)
    show ?thesis
    proof (cases tm)
      case None
      with d Returns show ?thesis
        by (simp add: handle_discord_message_def record_correlation_def)
    next
      case (Some r)
      with d Returns obtain j where j: "env j = Returns r" using discord_sends_final by blast
      show ?thesis
      proof (cases "ok r")
        case False
        with d Returns Some show ?thesis
          by (simp add: handle_discord_message_def record_correlation_def)
      next
        case True
        show ?thesis
        proof (cases "result_message_id r")
          case None
          with d Returns Some True show ?thesis
            by (simp add: handle_discord_message_def record_correlation_def)
        next
          case (Some t)
          with d Returns \<open>tm = Some r\<close> True
          have "fst (handle_discord_message env s m) =
            s\<lparr>discord_to_telegram := (discord_to_telegram s)
                 (str_int (message_id m) \<mapsto> (t, author_display_name m, author_id m)),
              telegram_to_discord := (telegram_to_discord s)
                 (t \<mapsto> (str_int (message_id m), author_display_name m, author_id m))\<rparr>"
            by (simp add: handle_discord_message_def record_correlation_def)
          with j True Some show ?thesis by blast
        qed
      qed
    qed
  qed
qed

lemma paired_tables:
  "discord_to_telegram paired_state = [''7'' \<mapsto> (5, ''Ann'', 1)]"
  "telegram_to_discord paired_state = [5 \<mapsto> (''7'', ''Ann'', 1)]"
  "telegram_chat_id paired_state = - 100"
  by (simp_all add: paired_state_def fresh_state_def)

lemma paired_state_correlated_once: "correlated_once paired_state"
  by (auto simp: correlated_once_def paired_state_def split: if_splits)

text \<open>
  Claim C5. When the two direct tables mirror each other, every pair is the only one that
  mentions its Discord key or its Telegram id. Every handler keeps the tables mirrored:
  both delete handlers and \<open>handle_telegram_message\<close> whatever the outside does, and
  \<open>handle_discord_message\<close> for a message whose key is not yet in
  \<open>discord_to_telegram\<close> when no id answered by the Bot API is yet in
  \<open>telegram_to_discord\<close> (each Discord message is delivered once, and Telegram message
  ids are unique within the one chat the relay sends to). The handlers of new messages
  write to the tables only after a send was answered \<open>ok\<close> (Discord side) or the webhook
  post returned a message (Telegram side).
\<close>

theorem one_correlation_per_message:
  "(correlated_once s \<longrightarrow>
      (\<forall>d t n a. discord_to_telegram s d = Some (t, n, a) \<longrightarrow>
         (\<exists>n' a'. telegram_to_discord s t = Some (d, n', a')) \<and>
         (\<forall>d' n' a'. discord_to_telegram s d' = Some (t, n', a') \<longrightarrow> d' = d) \<and>
         (\<forall>t' n' a'. telegram_to_discord s t' = Some (d, n', a') \<longrightarrow> t' = t))) \<and>
   (correlated_once s \<longrightarrow> correlated_once (fst (handle_discord_message_delete denv s m))) \<and>
   (correlated_once s \<longrightarrow> correlated_once (fst (handle_telegram_message tenv s u))) \<and>
   (correlated_once s \<and> discord_to_telegram s (str_int (message_id m)) = None \<and>
    (\<forall>j r t. env j = Returns r \<and> result_message_id r = Some t \<longrightarrow>
        telegram_to_discord s t = None) \<longrightarrow>
      correlated_once (fst (handle_discord_message env s m))) \<and>
   (fst (handle_discord_message env s m) \<noteq> s \<longrightarrow> (\<exists>j r. env j = Returns r \<and> ok r)) \<and>
   (deleted_message u = None \<and> fst (handle_telegram_message tenv s u) \<noteq> s \<longrightarrow>
      (\<exists>w. post_result tenv = Returns (Some w)))"
proof (intro conjI impI)
  assume c: "correlated_once s"
  show "\<forall>d t n a. discord_to_telegram s d = Some (t, n, a) \<longrightarrow>
         (\<exists>n' a'. telegram_to_discord s t = Some (d, n', a')) \<and>
         (\<forall>d' n' a'. discord_to_telegram s d' = Some (t, n', a') \<longrightarrow> d' = d) \<and>
         (\<forall>t' n' a'. telegram_to_discord s t' = Some (d, n', a') \<longrightarrow> t' = t)"
  proof (intro allI impI)
    fix d t n a
    assume e: "discord_to_telegram s d = Some (t, n, a)"
    from correlated_once_fwd[OF c e] correlated_once_unique[OF c e]
    show "(\<exists>n' a'. telegram_to_discord s t = Some (d, n', a')) \<and>
         (\<forall>d' n' a'. discord_to_telegram s d' = Some (t, n', a') \<longrightarrow> d' = d) \<and>
         (\<forall>t' n' a'. telegram_to_discord s t' = Some (d, n', a') \<longrightarrow> t' = t)"
      by blast
  qed
next
  assume "correlated_once s"
  then show "correlated_once (fst (handle_discord_message_delete denv s m))"
    by (rule discord_delete_keeps_correlated_once)
next
  assume "correlated_once s"
  then show "correlated_once (fst (handle_telegram_message tenv s u))"
    by (rule telegram_message_keeps_correlated_once)
next
  assume a: "correlated_once s \<and> discord_to_telegram s (str_int (message_id m)) = None \<and>
    (\<forall>j r t. env j = Returns r \<and> result_message_id r = Some t \<longrightarrow>
        telegram_to_discord s t = None)"
  from discord_message_state[of env s m]
  show "correlated_once (fst (handle_discord_message env s m))"
  proof
    assume "fst (handle_discord_message env s m) = s"
    with a show ?thesis by simp
  next
    assume "\<exists>j r t. env j = Returns r \<and> ok r \<and> result_message_id r = Some t \<and>
      fst (handle_discord_message env s m) =
        s\<lparr>discord_to_telegram := (discord_to_telegram s)
             (str_int (message_id m) \<mapsto> (t, author_display_name m, author_id m)),
          telegram_to_discord := (telegram_to_discord s)
             (t \<mapsto> (str_int (message_id m), author_display_name m, author_id m))\<rparr>"
    then obtain j r t where j: "env j = Returns r" "result_message_id r = Some t"
      and st: "fst (handle_discord_message env s m) =
        s\<lparr>discord_to_telegram := (discord_to_telegram s)
             (str_int (message_id m) \<mapsto> (t, author_display_name m, author_id m)),
          telegram_to_discord := (telegram_to_discord s)
             (t \<mapsto> (str_int (message_id m), author_display_name m, author_id m))\<rparr>"
      by blast
    from a j have fresh: "telegram_to_discord s t = None" by blast
    from a have c: "correlated_once s"
      and d: "discord_to_telegram s (str_int (message_id m)) = None" by simp_all
    from c d fresh show ?thesis
      by (rule correlated_once_insert) (simp_all add: st)
  qed
next
  assume "fst (handle_discord_message env s m) \<noteq> s"
  with discord_message_state[of env s m] show "\<exists>j r. env j = Returns r \<and> ok r"
    by blast
next
  assume a: "deleted_message u = None \<and> fst (handle_telegram_message tenv s u) \<noteq> s"
  then have "deleted_message u = None" by simp
  from telegram_message_state[OF this, of tenv s] a
  show "\<exists>w. post_result tenv = Returns (Some w)" by blast
qed

theorem one_correlation_per_message_witness:
  "(\<exists>n a. telegram_to_discord
            (fst (handle_discord_message (script [Returns (tg_ok 6)]) paired_state
                    (plain_message 8 ''yo'' []))) 6 = Some (''8'', n, a)) \<and>
   (\<exists>n a. telegram_to_discord
            (fst (handle_discord_message (script [Returns (tg_ok 6)]) paired_state
                    (plain_message 8 ''yo'' []))) 5 = Some (''7'', n, a)) \<and>
   telegram_to_discord
     (fst (handle_telegram_message quiet_env paired_state (deletion_update 1 5))) 5 = None \<and>
   discord_to_telegram
     (fst (handle_discord_message_delete (Returns (tg_ok 5)) paired_state
             (plain_message 7 ''hi'' []))) ''7'' = None"
proof -
  let ?env = "script [Returns (tg_ok 6)]"
  let ?m = "plain_message 8 ''yo'' []"
  let ?s = "fst (handle_discord_message ?env paired_state ?m)"
  note t = one_correlation_per_message
    [of paired_state "Returns (tg_ok 5)" ?m quiet_env "deletion_update 1 5" ?env]
  note t' = one_correlation_per_message [of ?s "Returns (tg_ok 5)" ?m quiet_env
    "deletion_update 1 5" ?env]
  have c: "correlated_once paired_state" by (rule paired_state_correlated_once)
  have fresh_d: "discord_to_telegram paired_state (str_int (message_id ?m)) = None"
    by (simp add: plain_fields str_int_8 paired_state_def)
  have fresh_t: "\<forall>j r t. ?env j = Returns r \<and> result_message_id r = Some t \<longrightarrow>
        telegram_to_discord paired_state t = None"
    by (auto simp: script_def tg_ok_def paired_state_def fresh_tables split: if_splits)
  from t c fresh_d fresh_t have inv: "correlated_once ?s" by blast
  have p: "planned_sends paired_state ?m =
        [SendMessage (- 100) (text_line ?m) None]"
    by (simp add: planned_sends_def plain_fields reply_target_def paired_tables)
  then have "\<forall>i < length (planned_sends paired_state ?m). ?env i \<noteq> Raises"
    by (simp add: script_0)
  from handle_discord_message_all[OF this]
  have st: "?s = paired_state\<lparr>discord_to_telegram :=
                      [''7'' \<mapsto> (5, ''Ann'', 1), ''8'' \<mapsto> (6, ''Ann'', 1)],
                     telegram_to_discord :=
                      [5 \<mapsto> (''7'', ''Ann'', 1), 6 \<mapsto> (''8'', ''Ann'', 1)]\<rparr>"
    by (simp add: p script_0 record_correlation_def tg_ok_def str_int_8 plain_fields
          paired_tables)
  have d8: "discord_to_telegram ?s ''8'' = Some (6, ''Ann'', 1)"
    and d7: "discord_to_telegram ?s ''7'' = Some (5, ''Ann'', 1)"
    by (simp_all add: st)
  from t' inv d8 have 1: "\<exists>n a. telegram_to_discord ?s 6 = Some (''8'', n, a)" by blast
  from t' inv d7 have 2: "\<exists>n a. telegram_to_discord ?s 5 = Some (''7'', n, a)" by blast
  have 3: "telegram_to_discord
     (fst (handle_telegram_message quiet_env paired_state (deletion_update 1 5))) 5 = None"
    by (simp add: handle_telegram_message_def handle_telegram_message_delete_def
          deletion_update_def paired_state_def)
  have 4: "discord_to_telegram
     (fst (handle_discord_message_delete (Returns (tg_ok 5)) paired_state
             (plain_message 7 ''hi'' []))) ''7'' = None"
    by (simp add: handle_discord_message_delete_def plain_fields str_int_7 paired_state_def
          tg_ok_def Let_def)
  show ?thesis by (intro conjI 1 2 3 4)
qed

section \<open>Classification of attachments\<close>

lemma discord_sends_nth:
  assumes "p < length (planned_sends s m)" "\<forall>j < p. env j \<noteq> Raises"
  shows "p < length (snd (discord_sends env s m)) \<and>
         snd (discord_sends env s m) ! p = planned_sends s m ! p"
proof (cases "\<forall>i < length (planned_sends s m). env i \<noteq> Raises")
  case True
  from discord_sends_all[OF True] assms(1) show ?thesis by simp
next
  case False
  then have "\<exists>j. j < length (planned_sends s m) \<and> env j = Raises" by blast
  then obtain j0 where j0: "j0 < length (planned_sends s m) \<and> env j0 = Raises"
    and least: "\<forall>i < j0. \<not> (i < length (planned_sends s m) \<and> env i = Raises)"
    using exists_least_iff[of "\<lambda>j. j < length (planned_sends s m) \<and> env j = Raises"] by blast
  from least j0 have before: "\<forall>i < j0. env i \<noteq> Raises" by auto
  from j0 assms(2) have "p \<le> j0" by (meson not_le_imp_less)
  moreover from j0 before have "discord_sends env s m = (Raises, take (Suc j0) (planned_sends s m))"
    using discord_sends_raise by blast
  ultimately show ?thesis using j0 by simp
qed

lemma handle_discord_message_trace:
  "\<exists>x. snd (handle_discord_message env s m) = map TgCall (snd (discord_sends env s m)) @ x"
proof -
  obtain res cs where d: "discord_sends env s m = (res, cs)" by (cases "discord_sends env s m")
  show ?thesis
  proof (cases res)
    case Raises
    with d show ?thesis by (simp add: handle_discord_message_def)
  next
    case (Returns tm)
    with d show ?thesis
      by (cases "record_correlation s m tm") (simp_all add: handle_discord_message_def)
  qed
qed

lemma handle_discord_message_nth:
  assumes "p < length (planned_sends s m)" "\<forall>j < p. env j \<noteq> Raises"
  shows "p < length (snd (handle_discord_message env s m)) \<and>
         snd (handle_discord_message env s m) ! p = TgCall (planned_sends s m ! p)"
proof -
  from discord_sends_nth[OF assms] have l: "p < length (snd (discord_sends env s m))"
    and e: "snd (discord_sends env s m) ! p = planned_sends s m ! p" by simp_all
  from handle_discord_message_trace[of env s m] obtain x
    where x: "snd (handle_discord_message env s m) = map TgCall (snd (discord_sends env s m)) @ x"
    by blast
  from l e show ?thesis by (simp add: x nth_append)
qed

lemma planned_sends_attachment:
  assumes "i < length (attachments m)"
  shows "(if content m \<noteq> [] then Suc i else i) < length (planned_sends s m) \<and>
         planned_sends s m ! (if content m \<noteq> [] then Suc i else i) =
           attachment_call (telegram_chat_id s) (caption_of m) (reply_target s m)
             (attachments m ! i)"
  using assms by (simp add: planned_sends_def)

lemma attachment_call_kind:
  "attachment_call chat cap r a =
     (case content_type a of
        None \<Rightarrow> SendDocument chat (url a) cap r
      | Some ct \<Rightarrow>
          if startswith ct ''image/'' then SendPhoto chat (url a) cap r
          else if startswith ct ''video/'' then SendVideo chat (url a) cap r
          else SendDocument chat (url a) cap r)"
  by (auto simp: attachment_call_def startswith_def split: option.splits)

text \<open>
  Claim C9. Take any attachment of a Discord message such that no earlier send of the run
  raises. Then \<open>handle_discord_message\<close> makes a call for it, at its place in the trace
  (after the text send when there is text), and that call is \<open>send_photo\<close> when the
  declared content type starts with \<open>image/\<close>, \<open>send_video\<close> when it starts with
  \<open>video/\<close>, and \<open>send_document\<close> for any other content type and for none; the call
  carries the attachment's URL, the caption and the reply target.
\<close>

theorem attachment_classification:
  assumes "i < length (attachments m)"
    and "\<forall>j < (if content m \<noteq> [] then Suc i else i). env j \<noteq> Raises"
  shows "(if content m \<noteq> [] then Suc i else i) < length (snd (handle_discord_message env s m)) \<and>
   (\<forall>ct. content_type (attachments m ! i) = Some ct \<and> startswith ct ''image/'' \<longrightarrow>
      snd (handle_discord_message env s m) ! (if content m \<noteq> [] then Suc i else i) =
        TgCall (SendPhoto (telegram_chat_id s) (url (attachments m ! i)) (caption_of m)
                  (reply_target s m))) \<and>
   (\<forall>ct. content_type (attachments m ! i) = Some ct \<and> startswith ct ''video/'' \<longrightarrow>
      snd (handle_discord_message env s m) ! (if content m \<noteq> [] then Suc i else i) =
        TgCall (SendVideo (telegram_chat_id s) (url (attachments m ! i)) (caption_of m)
                  (reply_target s m))) \<and>
   (\<forall>ct. content_type (attachments m ! i) = Some ct \<and> \<not> startswith ct ''image/'' \<and>
         \<not> startswith ct ''video/'' \<longrightarrow>
      snd (handle_discord_message env s m) ! (if content m \<noteq> [] then Suc i else i) =
        TgCall (SendDocument (telegram_chat_id s) (url (attachments m ! i)) (caption_of m)
                  (reply_target s m))) \<and>
   (content_type (attachments m ! i) = None \<longrightarrow>
      snd (handle_discord_message env s m) ! (if content m \<noteq> [] then Suc i else i) =
        TgCall (SendDocument (telegram_chat_id s) (url (attachments m ! i)) (caption_of m)
                  (reply_target s m)))"
proof -
  let ?p = "if content m \<noteq> [] then Suc i else i"
  from planned_sends_attachment[OF assms(1), of s]
  have l: "?p < length (planned_sends s m)"
    and e: "planned_sends s m ! ?p =
           attachment_call (telegram_chat_id s) (caption_of m) (reply_target s m)
             (attachments m ! i)" by simp_all
  from handle_discord_message_nth[OF l assms(2)]
  have 1: "?p < length (snd (handle_discord_message env s m))"
    and 2: "snd (handle_discord_message env s m) ! ?p =
      TgCall (attachment_call (telegram_chat_id s) (caption_of m) (reply_target s m)
                (attachments m ! i))"
    by (simp_all add: e)
  have excl: "\<not> startswith ct ''image/''" if "startswith ct ''video/''" for ct
    using that by (auto simp: startswith_def)
  show ?thesis
    using 1 unfolding 2 by (auto simp: attachment_call_kind excl)
qed

theorem attachment_classification_witness:
  "snd (handle_discord_message (always (Returns tg_fail)) fresh_state mixed_message) ! 1 =
     TgCall (SendPhoto (- 100) ''u1'' ''<b>Ann</b>: hi'' None) \<and>
   snd (handle_discord_message (always (Returns tg_fail)) fresh_state mixed_message) ! 2 =
     TgCall (SendVideo (- 100) ''u2'' ''<b>Ann</b>: hi'' None) \<and>
   snd (handle_discord_message (always (Returns tg_fail)) fresh_state mixed_message) ! 3 =
     TgCall (SendDocument (- 100) ''u4'' ''<b>Ann</b>: hi'' None) \<and>
   snd (handle_discord_message (always (Returns tg_fail)) fresh_state mixed_message) ! 4 =
     TgCall (SendDocument (- 100) ''u3'' ''<b>Ann</b>: hi'' None)"
proof -
  let ?env = "always (Returns tg_fail) :: nat \<Rightarrow> tg_response outcome"
  have f: "content mixed_message = ''hi''"
    "attachments mixed_message = [image_png, video_mp4, pdf_file, untyped_file]"
    "caption_of mixed_message = ''<b>Ann</b>: hi''"
    "reply_target fresh_state mixed_message = None"
    by (simp_all add: mixed_message_def plain_fields caption_of_def reply_target_def)
  have k: "content_type image_png = Some ''image/png''" "url image_png = ''u1''"
    "content_type video_mp4 = Some ''video/mp4''" "url video_mp4 = ''u2''"
    "content_type pdf_file = Some ''application/pdf''" "url pdf_file = ''u4''"
    "content_type untyped_file = None" "url untyped_file = ''u3''"
    by (simp_all add: image_png_def video_mp4_def pdf_file_def untyped_file_def)
  have st: "startswith ''image/png'' ''image/''" "startswith ''video/mp4'' ''video/''"
    "\<not> startswith ''application/pdf'' ''image/''" "\<not> startswith ''application/pdf'' ''video/''"
    by (simp_all add: startswith_def)
  have e: "\<forall>j < (if content mixed_message \<noteq> [] then Suc i else i). ?env j \<noteq> Raises" for i
    by (simp add: always_def)
  have 0: "(0::nat) < length (attachments mixed_message)"
    and 1: "(1::nat) < length (attachments mixed_message)"
    and 2: "(2::nat) < length (attachments mixed_message)"
    and 3: "(3::nat) < length (attachments mixed_message)"
    by (simp_all add: f)
  from attachment_classification [OF 0 e, of fresh_state]
       attachment_classification [OF 1 e, of fresh_state]
       attachment_classification [OF 2 e, of fresh_state]
       attachment_classification [OF 3 e, of fresh_state]
  show ?thesis
    by (simp add: f k st fresh_tables eval_nat_numeral)
qed

section \<open>The poll cursor\<close>




















end
